theory Spec2Isabelle
  imports Complex_Main "HOL-Library.Multiset" "HOL-Library.Char_ord" "HOL-Library.List_Lexorder"
    "HOL-Library.Product_Lexorder"
begin

section \<open>Data model\<close>

text \<open>
  A cell of a pandas table: a missing value (NaN, NaT, None), a text, a number, or a
  calendar date (year, month, day; after date conversion). A text is a list of code
  points below 256. A number cell \<open>Num m k\<close> holds the stored value \<open>m / 10^k\<close>; every
  64-bit integer and every finite 64-bit float is such a decimal, and the two infinite
  floats have no cell. No function of this theory computes a number: parsing and
  printing numbers is left to the library, which is a parameter (see the price
  conversion).
\<close>

datatype cell = NaN | Str string | Num int nat | Timestamp nat nat nat

fun isna :: "cell \<Rightarrow> bool" where
  "isna NaN = True"
| "isna _ = False"

text \<open>
  A wide table as read from a spreadsheet: the column labels, and the rows, each a list
  of cells in column order.
\<close>

record dataframe =
  columns :: "string list"
  rows :: "cell list list"

text \<open>pandas' \<open>df.empty\<close>: some axis has length zero.\<close>

definition df_empty :: "dataframe \<Rightarrow> bool" where
  "df_empty df = (rows df = [] \<or> columns df = [])"

text \<open>A row of the canonical long table.\<close>

record long_row =
  Commodity :: cell
  City :: cell
  Date :: cell
  Price :: cell

type_synonym long_table = "long_row list"

text \<open>A path is the list of its parts; \<open>name\<close> is the last part.\<close>

type_synonym path = "string list"

definition path_name :: "path \<Rightarrow> string" where
  "path_name p = (if p = [] then [] else last p)"

text \<open>The fields of \<open>ConsolidatorConfig\<close> that the modelled code reads.\<close>

record config =
  target_commodities :: "string list"
  columns_to_drop :: "string list"
  commodity_col :: string
  original_commodity_col :: string
  city_col :: string
  date_col :: string
  price_col :: string
  missing_value_indicators :: "string list"
  default_csv_output :: string
  default_excel_output :: string
  min_expected_columns :: int
  target_years :: "int list option"
  target_cities :: "string list option"
  year_range_start :: "int option"
  year_range_end :: "int option"

definition default_config :: config where
  "default_config = \<lparr>
     target_commodities = [''Beras'', ''Telur Ayam'', ''Daging Ayam'', ''Bawang Merah'', ''Bawang Putih''],
     columns_to_drop = [''No''],
     commodity_col = ''Commodities'',
     original_commodity_col = ''Komoditas (Rp)'',
     city_col = ''City'',
     date_col = ''Date'',
     price_col = ''Price'',
     missing_value_indicators = [''-'', '''', ''nan'', ''NaN'', ''null'', ''NULL''],
     default_csv_output = ''master_data_consolidated.csv'',
     default_excel_output = ''master_data_consolidated.xlsx'',
     min_expected_columns = 2,
     target_years = None,
     target_cities = Some [''kab-sintang'', ''kota-pontianak'', ''kota-singkawang'',
       ''kota-banjarmasin'', ''kota-tanjung'', ''kota-palangkaraya'', ''kota-sampit'',
       ''kota-balikpapan'', ''kota-samarinda'', ''kota-tarakan''],
     year_range_start = Some 2018,
     year_range_end = Some 2024 \<rparr>"

datatype error = KeyError | IndexError | ValueError | FileNotFoundError | OSError

section \<open>Validator\<close>

text \<open>
  \<open>DataValidator.validate_dataframe\<close>: three \<open>if\<close> statements in sequence, each
  appending to \<open>issues\<close>; the result is \<open>(len(issues) == 0, issues)\<close>.
\<close>

definition validate_dataframe :: "config \<Rightarrow> dataframe \<Rightarrow> path \<Rightarrow> bool \<times> string list" where
  "validate_dataframe cfg df file_path =
    (let issues0 = [];
         issues1 = (if df_empty df
                    then issues0 @ [''Empty DataFrame from '' @ path_name file_path]
                    else issues0);
         issues2 = (if original_commodity_col cfg \<notin> set (columns df)
                    then issues1 @ [''Missing '' @ [CHR 0x27] @ original_commodity_col cfg
                                      @ [CHR 0x27] @ '' column in '' @ path_name file_path]
                    else issues1);
         issues3 = (if int (length (columns df)) < min_expected_columns cfg
                    then issues2 @ [''Insufficient columns in '' @ path_name file_path]
                    else issues2)
     in (length issues3 = 0, issues3))"

text \<open>The three messages, named.\<close>

definition empty_issue :: "path \<Rightarrow> string" where
  "empty_issue file_path = ''Empty DataFrame from '' @ path_name file_path"

definition missing_column_issue :: "config \<Rightarrow> path \<Rightarrow> string" where
  "missing_column_issue cfg file_path =
     ''Missing '' @ [CHR 0x27] @ original_commodity_col cfg @ [CHR 0x27] @ '' column in ''
       @ path_name file_path"

definition insufficient_issue :: "path \<Rightarrow> string" where
  "insufficient_issue file_path = ''Insufficient columns in '' @ path_name file_path"

section \<open>Cleaner: commodity filter\<close>

text \<open>
  \<open>df[df[commodity_col].isin(target_commodities)].copy()\<close>: the rows whose Commodity cell
  equals one of the target names, in their order.
\<close>

definition isin :: "cell \<Rightarrow> string list \<Rightarrow> bool" where
  "isin c targets = (case c of Str s \<Rightarrow> s \<in> set targets | _ \<Rightarrow> False)"

definition filter_commodities :: "long_table \<Rightarrow> string list \<Rightarrow> long_table" where
  "filter_commodities df targets = filter (\<lambda>r. isin (Commodity r) targets) df"

text \<open>
  Tables live in a store of objects, addressed by position. The method allocates its
  result as a new object and writes to no existing one.
\<close>

type_synonym store = "long_table list"

definition filter_commodities_st :: "store \<Rightarrow> nat \<Rightarrow> string list \<Rightarrow> error + (store \<times> nat)" where
  "filter_commodities_st st df targets =
     (if df < length st
      then Inr (st @ [filter_commodities (st ! df) targets], length st)
      else Inl KeyError)"

section \<open>Loader: the year predicate\<close>

text \<open>
  Python's \<open>int(s)\<close> on a text, base ten: surrounding whitespace is stripped, one sign
  is allowed, and the digits may be grouped by single underscores between digits. The
  result is \<open>None\<close> where Python raises \<open>ValueError\<close>. The whitespace that \<open>int\<close>
  strips is tab to carriage return (9 to 13) and the space, and of the code points from
  128 on those that are Unicode whitespace, which \<open>int\<close> first turns into spaces: 133
  and 160. The separators 28 to 31 are not stripped.
\<close>

definition int_space :: "char \<Rightarrow> bool" where
  "int_space c = (let n = (of_char c :: nat) in (9 \<le> n \<and> n \<le> 13) \<or> n = 32 \<or> n = 133 \<or> n = 160)"

definition strip :: "string \<Rightarrow> string" where
  "strip s = rev (dropWhile int_space (rev (dropWhile int_space s)))"

definition digit_of :: "char \<Rightarrow> nat option" where
  "digit_of c = (let n = (of_char c :: nat) in if 48 \<le> n \<and> n \<le> 57 then Some (n - 48) else None)"

fun int_digits :: "nat \<Rightarrow> string \<Rightarrow> nat option" where
  "int_digits acc [] = Some acc"
| "int_digits acc (c # cs) =
     (if c = CHR ''_'' then
        (case cs of
           [] \<Rightarrow> None
         | d # ds \<Rightarrow> (case digit_of d of None \<Rightarrow> None | Some v \<Rightarrow> int_digits (acc * 10 + v) ds))
      else (case digit_of c of None \<Rightarrow> None | Some v \<Rightarrow> int_digits (acc * 10 + v) cs))"

definition int_body :: "string \<Rightarrow> nat option" where
  "int_body s =
     (case s of
        [] \<Rightarrow> None
      | c # cs \<Rightarrow> (case digit_of c of None \<Rightarrow> None | Some v \<Rightarrow> int_digits v cs))"

definition py_int :: "string \<Rightarrow> int option" where
  "py_int s =
     (case strip s of
        [] \<Rightarrow> None
      | c # cs \<Rightarrow>
          if c = CHR ''-'' then map_option (\<lambda>n. - int n) (int_body cs)
          else if c = CHR ''+'' then map_option int (int_body cs)
          else map_option int (int_body (c # cs)))"

text \<open>
  \<open>PurePath.stem\<close>: the name up to its last dot, unless that dot is the first or the
  last character of the name, or there is none.
\<close>

definition rfind :: "char \<Rightarrow> string \<Rightarrow> nat option" where
  "rfind c s =
     (if c \<in> set s then Some (length s - 1 - length (takeWhile (\<lambda>x. x \<noteq> c) (rev s))) else None)"

definition path_stem :: "path \<Rightarrow> string" where
  "path_stem p =
     (let name = path_name p in
      case rfind CHR ''.'' name of
        None \<Rightarrow> name
      | Some i \<Rightarrow> if 0 < i \<and> i + 1 < length name then take i name else name)"

text \<open>
  The bounds of the year range after \<open>x or float('-inf')\<close> and \<open>x or float('inf')\<close>: an
  integer or an infinity. Python's \<open>or\<close> yields its right operand when the left one is
  falsy, that is \<open>None\<close> or \<open>0\<close>.
\<close>

datatype bound = MinusInf | Fin int | PlusInf

fun bound_le :: "bound \<Rightarrow> bound \<Rightarrow> bool" where
  "bound_le MinusInf _ = True"
| "bound_le _ PlusInf = True"
| "bound_le (Fin a) (Fin b) = (a \<le> b)"
| "bound_le _ _ = False"

fun py_or :: "int option \<Rightarrow> bound \<Rightarrow> bound" where
  "py_or None d = d"
| "py_or (Some v) d = (if v = 0 then d else Fin v)"

fun is_not_None :: "'a option \<Rightarrow> bool" where
  "is_not_None None = False"
| "is_not_None (Some _) = True"

text \<open>\<open>DataLoader._should_process_year\<close>.\<close>

definition should_process_year :: "config \<Rightarrow> path \<Rightarrow> bool" where
  "should_process_year cfg file_path =
     (case py_int (path_stem file_path) of
        None \<Rightarrow> True
      | Some year \<Rightarrow>
          (case target_years cfg of
             Some years \<Rightarrow> year \<in> set years
           | None \<Rightarrow>
               if is_not_None (year_range_start cfg) \<or> is_not_None (year_range_end cfg) then
                 (let start_year = py_or (year_range_start cfg) MinusInf;
                      end_year = py_or (year_range_end cfg) PlusInf
                  in bound_le start_year (Fin year) \<and> bound_le (Fin year) end_year)
               else True))"

text \<open>
  The year predicate in the words of its specification: a bound that is absent is
  open-ended, a bound that is present is compared.
\<close>

definition year_predicate_spec :: "config \<Rightarrow> path \<Rightarrow> bool" where
  "year_predicate_spec cfg file_path =
     (case py_int (path_stem file_path) of
        None \<Rightarrow> True
      | Some y \<Rightarrow>
          (case target_years cfg of
             Some years \<Rightarrow> y \<in> set years
           | None \<Rightarrow>
               (case year_range_start cfg of None \<Rightarrow> True | Some a \<Rightarrow> a \<le> y) \<and>
               (case year_range_end cfg of None \<Rightarrow> True | Some b \<Rightarrow> y \<le> b)))"

section \<open>Cleaner: preparing and reshaping a wide table\<close>

text \<open>\<open>file_path.parts[-2]\<close>: the name of the parent directory, or \<open>IndexError\<close>.\<close>

definition extract_city_from_path :: "path \<Rightarrow> error + string" where
  "extract_city_from_path file_path =
     (if length file_path < 2 then Inl IndexError
      else Inr (file_path ! (length file_path - 2)))"

fun index_of :: "string \<Rightarrow> string list \<Rightarrow> nat option" where
  "index_of c [] = None"
| "index_of c (x # xs) = (if x = c then Some 0 else map_option Suc (index_of c xs))"

text \<open>The cell of a row under a column label (missing where the row has no such cell).\<close>

definition cell_at :: "string list \<Rightarrow> cell list \<Rightarrow> string \<Rightarrow> cell" where
  "cell_at cols r c =
     (case index_of c cols of
        None \<Rightarrow> NaN
      | Some i \<Rightarrow> if i < length r then r ! i else NaN)"

definition drop_columns :: "string list \<Rightarrow> dataframe \<Rightarrow> dataframe" where
  "drop_columns labels df =
     \<lparr>columns = filter (\<lambda>c. c \<notin> set labels) (columns df),
      rows = map (\<lambda>r. map snd (filter (\<lambda>(c, v). c \<notin> set labels) (zip (columns df) r))) (rows df)\<rparr>"

definition rename_column :: "string \<Rightarrow> string \<Rightarrow> dataframe \<Rightarrow> dataframe" where
  "rename_column old new df = df\<lparr>columns := map (\<lambda>c. if c = old then new else c) (columns df)\<rparr>"

text \<open>\<open>df[col] = value\<close>: overwrite the column when it exists, append it otherwise.\<close>

definition set_column :: "string \<Rightarrow> cell \<Rightarrow> dataframe \<Rightarrow> dataframe" where
  "set_column col v df =
     (if col \<in> set (columns df)
      then df\<lparr>rows := map (\<lambda>r. map (\<lambda>(c, x). if c = col then v else x) (zip (columns df) r)) (rows df)\<rparr>
      else \<lparr>columns = columns df @ [col], rows = map (\<lambda>r. r @ [v]) (rows df)\<rparr>)"

text \<open>\<open>DataCleaner.clean_dataframe\<close>.\<close>

definition clean_dataframe :: "config \<Rightarrow> dataframe \<Rightarrow> path \<Rightarrow> error + dataframe" where
  "clean_dataframe cfg df file_path =
     (let to_drop = filter (\<lambda>col. col \<in> set (columns df)) (columns_to_drop cfg);
          df1 = drop_columns to_drop df;
          df2 = (if original_commodity_col cfg \<in> set (columns df1)
                 then rename_column (original_commodity_col cfg) (commodity_col cfg) df1
                 else df1)
      in case extract_city_from_path file_path of
           Inl e \<Rightarrow> Inl e
         | Inr city_name \<Rightarrow> Inr (set_column (city_col cfg) (Str city_name) df2))"

text \<open>
  \<open>DataCleaner.transform_to_long_format\<close>: \<open>df.melt\<close> with the Commodity and City
  columns as identifiers, \<open>var_name=date_col\<close> and \<open>value_name=price_col\<close>. \<open>melt\<close> first
  refuses a table that already has a column labelled \<open>value_name\<close> (\<open>ValueError\<close>),
  then a table that lacks an identifier column (\<open>KeyError\<close>). Every other column is a
  value column, taken by position; the result stacks, for each value column in turn,
  one row per input row, the column's label under \<open>date_col\<close> and the cell under
  \<open>price_col\<close>.
\<close>

definition value_vars :: "config \<Rightarrow> dataframe \<Rightarrow> nat list" where
  "value_vars cfg df =
     filter (\<lambda>k. columns df ! k \<notin> set [commodity_col cfg, city_col cfg]) [0..<length (columns df)]"

definition melt_row :: "config \<Rightarrow> dataframe \<Rightarrow> nat \<Rightarrow> cell list \<Rightarrow> long_row" where
  "melt_row cfg df k r =
     \<lparr>Commodity = cell_at (columns df) r (commodity_col cfg),
      City = cell_at (columns df) r (city_col cfg),
      Date = Str (columns df ! k),
      Price = (if k < length r then r ! k else NaN)\<rparr>"

definition transform_to_long_format :: "config \<Rightarrow> dataframe \<Rightarrow> error + long_table" where
  "transform_to_long_format cfg df =
     (if price_col cfg \<in> set (columns df) then Inl ValueError
      else if commodity_col cfg \<in> set (columns df) \<and> city_col cfg \<in> set (columns df)
      then Inr (concat (map (\<lambda>k. map (melt_row cfg df k) (rows df)) (value_vars cfg df)))
      else Inl KeyError)"

section \<open>Example tables\<close>

text \<open>
  A spreadsheet shaped like the test fixture of the repository, with a thousands
  separator and a dash for a missing price, and the same table after
  \<open>clean_dataframe\<close> for a file below \<open>kota-pontianak\<close>.
\<close>

definition sample_sheet :: dataframe where
  "sample_sheet =
     \<lparr>columns = [''No'', ''Komoditas (Rp)'', ''Jan-18'', ''Feb-18''],
      rows = [ [Num 1 0, Str ''Beras'', Num 12000 0, Str ''12,500''],
               [Num 2 0, Str ''Telur Ayam'', Str ''-'', Num 26000 0],
               [Num 3 0, Str ''Unknown'', Num 15000 0, Num 15500 0] ]\<rparr>"

definition sample_wide :: dataframe where
  "sample_wide =
     \<lparr>columns = [''Commodities'', ''Jan-18'', ''Feb-18'', ''City''],
      rows = [ [Str ''Beras'', Num 12000 0, Str ''12,500'', Str ''kota-pontianak''],
               [Str ''Telur Ayam'', Str ''-'', Num 26000 0, Str ''kota-pontianak''],
               [Str ''Unknown'', Num 15000 0, Num 15500 0, Str ''kota-pontianak''] ]\<rparr>"


definition sample_long :: long_table where
  "sample_long =
     [\<lparr>Commodity = Str ''Beras'', City = Str ''kota-pontianak'', Date = Str ''Jan-18'', Price = Num 12000 0\<rparr>,
      \<lparr>Commodity = Str ''Telur Ayam'', City = Str ''kota-pontianak'', Date = Str ''Jan-18'', Price = Str ''-''\<rparr>,
      \<lparr>Commodity = Str ''Unknown'', City = Str ''kota-pontianak'', Date = Str ''Jan-18'', Price = Num 15000 0\<rparr>,
      \<lparr>Commodity = Str ''Beras'', City = Str ''kota-pontianak'', Date = Str ''Feb-18'', Price = Str ''12,500''\<rparr>,
      \<lparr>Commodity = Str ''Telur Ayam'', City = Str ''kota-pontianak'', Date = Str ''Feb-18'', Price = Num 26000 0\<rparr>,
      \<lparr>Commodity = Str ''Unknown'', City = Str ''kota-pontianak'', Date = Str ''Feb-18'', Price = Num 15500 0\<rparr>]"

section \<open>Cleaner: missing values\<close>

text \<open>\<open>Series.replace(indicator, np.nan)\<close> on one cell: a text equal to the indicator becomes missing.\<close>

definition replace_value :: "string \<Rightarrow> cell \<Rightarrow> cell" where
  "replace_value indicator c = (if c = Str indicator then NaN else c)"

definition replace_indicators :: "string list \<Rightarrow> long_table \<Rightarrow> long_table" where
  "replace_indicators indicators df =
     fold (\<lambda>indicator t. map (\<lambda>r. r\<lparr>Price := replace_value indicator (Price r)\<rparr>) t) indicators df"

text \<open>
  The order of \<open>sort_values\<close> on a column: texts compare as Python strings (by code
  point), missing cells come last (\<open>na_position='last'\<close>); numbers and dates are placed
  before texts. The sort on several columns is lexicographic and stable.
\<close>

fun cell_key :: "cell \<Rightarrow> nat \<times> rat \<times> string \<times> nat \<times> nat \<times> nat" where
  "cell_key (Num m k) = (0, of_int m / 10 ^ k, [], 0, 0, 0)"
| "cell_key (Timestamp y m d) = (1, 0, [], y, m, d)"
| "cell_key (Str s) = (2, 0, s, 0, 0, 0)"
| "cell_key NaN = (3, 0, [], 0, 0, 0)"

definition row_key :: "long_row \<Rightarrow> (nat \<times> rat \<times> string \<times> nat \<times> nat \<times> nat) \<times>
    (nat \<times> rat \<times> string \<times> nat \<times> nat \<times> nat) \<times> (nat \<times> rat \<times> string \<times> nat \<times> nat \<times> nat)" where
  "row_key r = (cell_key (City r), cell_key (Commodity r), cell_key (Date r))"

definition sort_values :: "long_table \<Rightarrow> long_table" where
  "sort_values df = sort_key row_key df"

text \<open>
  \<open>df.groupby([City, Commodity])[Price].ffill()\<close>: one pass over the rows in their
  order, remembering for each group the last price seen that is not missing. Rows
  with a missing group key belong to no group (\<open>dropna=True\<close>) and come out missing.
\<close>

fun group_ffill :: "(cell \<times> cell \<rightharpoonup> cell) \<Rightarrow> long_table \<Rightarrow> cell list" where
  "group_ffill seen [] = []"
| "group_ffill seen (r # rs) =
     (if isna (City r) \<or> isna (Commodity r) then NaN # group_ffill seen rs
      else if isna (Price r) then
        (case seen (City r, Commodity r) of None \<Rightarrow> NaN | Some v \<Rightarrow> v) # group_ffill seen rs
      else Price r # group_ffill (seen((City r, Commodity r) \<mapsto> Price r)) rs)"

text \<open>
  \<open>.bfill()\<close> on the Series that the group-wise forward fill returned: a missing value
  takes the next value below it that is not missing, whatever row it belongs to.
\<close>

fun bfill :: "cell list \<Rightarrow> cell list" where
  "bfill [] = []"
| "bfill (x # xs) =
     (let ys = bfill xs
      in (if isna x then (case ys of [] \<Rightarrow> NaN | y # _ \<Rightarrow> y) else x) # ys)"

text \<open>\<open>DataCleaner.handle_missing_values\<close>.\<close>

definition set_prices :: "long_table \<Rightarrow> cell list \<Rightarrow> long_table" where
  "set_prices df prices = map (\<lambda>(r, p). r\<lparr>Price := p\<rparr>) (zip df prices)"

definition handle_missing_values :: "config \<Rightarrow> long_table \<Rightarrow> long_table" where
  "handle_missing_values cfg df =
     (let df1 = replace_indicators (missing_value_indicators cfg) df;
          df2 = sort_values df1
      in set_prices df2 (bfill (group_ffill Map.empty df2)))"

definition count_missing :: "long_table \<Rightarrow> nat" where
  "count_missing df = length (filter (\<lambda>r. isna (Price r)) df)"

text \<open>
  The fill in the words of its specification, on a sorted table: a missing price takes
  the most recent prior price of its own group that is not missing, or if there is
  none, the nearest subsequent one of its own group, or stays missing.
\<close>

definition same_group :: "long_row \<Rightarrow> long_row \<Rightarrow> bool" where
  "same_group r r' = (City r = City r' \<and> Commodity r = Commodity r')"

definition known_prices :: "long_row \<Rightarrow> long_table \<Rightarrow> cell list" where
  "known_prices r rs = map Price (filter (\<lambda>r'. same_group r r' \<and> \<not> isna (Price r')) rs)"

definition fill_spec :: "long_table \<Rightarrow> nat \<Rightarrow> cell" where
  "fill_spec df i =
     (case known_prices (df ! i) (rev (take (Suc i) df)) of
        p # _ \<Rightarrow> p
      | [] \<Rightarrow> (case known_prices (df ! i) (drop (Suc i) df) of p # _ \<Rightarrow> p | [] \<Rightarrow> NaN))"

definition handle_missing_values_spec :: "config \<Rightarrow> long_table \<Rightarrow> long_table" where
  "handle_missing_values_spec cfg df =
     (let df1 = replace_indicators (missing_value_indicators cfg) df;
          df2 = sort_values df1
      in set_prices df2 (map (fill_spec df2) [0..<length df2]))"

definition gap_long :: long_table where
  "gap_long =
     [\<lparr>Commodity = Str ''Beras'', City = Str ''kota-pontianak'', Date = Str ''Jan-18'', Price = Str ''-''\<rparr>,
      \<lparr>Commodity = Str ''Telur Ayam'', City = Str ''kota-pontianak'', Date = Str ''Jan-18'', Price = Num 25000 0\<rparr>]"

text \<open>The identifying triple of a row.\<close>

definition triple :: "long_row \<Rightarrow> cell \<times> cell \<times> cell" where
  "triple r = (City r, Commodity r, Date r)"

section \<open>Cleaner: price conversion\<close>

text \<open>
  What the type conversion takes from pandas and Python, as a parameter of the model:
  \<open>str\<close> of a number or date cell; \<open>pd.to_numeric(..., errors='coerce')\<close> on one text,
  which gives a number or a missing value; and which dates beyond those of a nanosecond
  \<open>Timestamp\<close> the datetime column of the installed version holds. The first two are
  64-bit floating point routines of the library.
\<close>

record pandas =
  str_of :: "cell \<Rightarrow> string"
  to_numeric :: "string \<Rightarrow> cell"
  timestamp_wider :: "nat \<Rightarrow> nat \<Rightarrow> nat \<Rightarrow> bool"

text \<open>\<open>Series.astype(str)\<close> on one cell: a text is itself, a missing value is \<open>nan\<close>.\<close>

definition astype_str :: "pandas \<Rightarrow> cell \<Rightarrow> string" where
  "astype_str lib c = (case c of NaN \<Rightarrow> ''nan'' | Str s \<Rightarrow> s | _ \<Rightarrow> str_of lib c)"

text \<open>\<open>.str.replace(',', '', regex=False)\<close>: every comma is removed.\<close>

definition remove_commas :: "string \<Rightarrow> string" where
  "remove_commas s = filter (\<lambda>c. c \<noteq> CHR '','') s"

text \<open>\<open>DataCleaner._clean_and_convert_price\<close>; the logging reads the result only.\<close>

definition clean_and_convert_price :: "pandas \<Rightarrow> cell list \<Rightarrow> cell list" where
  "clean_and_convert_price lib price_series =
     map (\<lambda>c. to_numeric lib (remove_commas (astype_str lib c))) price_series"

section \<open>Cleaner: date conversion\<close>

text \<open>
  \<open>pd.to_datetime(series, format='%d/ %m/ %Y', errors='coerce')\<close>. The format is
  compiled to a regular expression, as \<open>strptime\<close> does: \<open>%d\<close> is
  \<open>3[0-1]|[1-2]\d|0[1-9]|[1-9]| [1-9]\<close>, \<open>%m\<close> is \<open>1[0-2]|0[1-9]|[1-9]\<close>, \<open>%Y\<close> is
  \<open>\d\d\d\d\<close>, a slash stands for itself and each run of whitespace in the format
  becomes \<open>\s+\<close>. A matcher returns every way to match a prefix of the text, in the
  order in which a backtracking matcher tries them, each with the text that remains.
  Below code point 256, \<open>\s\<close> matches 9 to 13, 28 to 32, 133 and 160, and \<open>\d\<close> the
  digits \<open>0\<close> to \<open>9\<close>.
\<close>

definition regex_space :: "char \<Rightarrow> bool" where
  "regex_space c =
     (let n = (of_char c :: nat)
      in (9 \<le> n \<and> n \<le> 13) \<or> (28 \<le> n \<and> n \<le> 32) \<or> n = 133 \<or> n = 160)"



definition digit_in :: "nat \<Rightarrow> nat \<Rightarrow> char \<Rightarrow> nat option" where
  "digit_in lo hi c =
     (case digit_of c of
        None \<Rightarrow> None
      | Some v \<Rightarrow> if lo \<le> v \<and> v \<le> hi then Some v else None)"

fun two_digits :: "nat \<Rightarrow> nat \<Rightarrow> nat \<Rightarrow> nat \<Rightarrow> string \<Rightarrow> (nat \<times> string) list" where
  "two_digits a b c d (x # y # rest) =
     (case digit_in a b x of
        None \<Rightarrow> []
      | Some u \<Rightarrow> (case digit_in c d y of None \<Rightarrow> [] | Some v \<Rightarrow> [(10 * u + v, rest)]))"
| "two_digits a b c d _ = []"

fun one_digit :: "nat \<Rightarrow> nat \<Rightarrow> string \<Rightarrow> (nat \<times> string) list" where
  "one_digit a b (x # rest) = (case digit_in a b x of None \<Rightarrow> [] | Some u \<Rightarrow> [(u, rest)])"
| "one_digit a b [] = []"

fun space_digit :: "string \<Rightarrow> (nat \<times> string) list" where
  "space_digit (x # rest) = (if x = CHR '' '' then one_digit 1 9 rest else [])"
| "space_digit [] = []"

definition re_day :: "string \<Rightarrow> (nat \<times> string) list" where
  "re_day s = two_digits 3 3 0 1 s @ two_digits 1 2 0 9 s @ two_digits 0 0 1 9 s
                @ one_digit 1 9 s @ space_digit s"

definition re_month :: "string \<Rightarrow> (nat \<times> string) list" where
  "re_month s = two_digits 1 1 0 2 s @ two_digits 0 0 1 9 s @ one_digit 1 9 s"

fun re_year :: "string \<Rightarrow> (nat \<times> string) list" where
  "re_year (a # b # c # d # rest) =
     (case (digit_of a, digit_of b, digit_of c, digit_of d) of
        (Some p, Some q, Some r, Some s) \<Rightarrow> [(1000 * p + 100 * q + 10 * r + s, rest)]
      | _ \<Rightarrow> [])"
| "re_year _ = []"

fun re_char :: "char \<Rightarrow> string \<Rightarrow> string list" where
  "re_char c (x # rest) = (if x = c then [rest] else [])"
| "re_char c [] = []"

text \<open>\<open>\s+\<close>, greedy: the longest run of whitespace first, then shorter ones, at least one character.\<close>

definition re_spaces :: "string \<Rightarrow> string list" where
  "re_spaces s = map (\<lambda>i. drop i s) (rev [1..<Suc (length (takeWhile regex_space s))])"

definition match_date :: "string \<Rightarrow> (nat \<times> nat \<times> nat \<times> string) list" where
  "match_date s =
     concat (map (\<lambda>(d, s1).
       concat (map (\<lambda>s2.
         concat (map (\<lambda>s3.
           concat (map (\<lambda>(m, s4).
             concat (map (\<lambda>s5.
               concat (map (\<lambda>s6.
                 map (\<lambda>(y, s7). (d, m, y, s7)) (re_year s6))
               (re_spaces s5)))
             (re_char CHR ''/'' s4)))
           (re_month s3)))
         (re_spaces s2)))
       (re_char CHR ''/'' s1)))
     (re_day s))"

definition is_leap :: "nat \<Rightarrow> bool" where
  "is_leap y = (y mod 400 = 0 \<or> (y mod 4 = 0 \<and> \<not> (y mod 100 = 0)))"

definition days_in_month :: "nat \<Rightarrow> nat \<Rightarrow> nat" where
  "days_in_month y m =
     (if m = 2 then (if is_leap y then 29 else 28)
      else if m = 4 \<or> m = 6 \<or> m = 9 \<or> m = 11 then 30
      else 31)"

text \<open>
  The first match must use the whole text (\<open>exact=True\<close>) and name a day of the
  calendar; the year \<open>0000\<close> is none.
\<close>

definition strptime_date :: "string \<Rightarrow> (nat \<times> nat \<times> nat) option" where
  "strptime_date s =
     (case match_date s of
        [] \<Rightarrow> None
      | (d, m, y, rest) # _ \<Rightarrow>
          if rest = [] \<and> 1 \<le> y \<and> d \<le> days_in_month y m then Some (y, m, d) else None)"

text \<open>
  A date that the datetime column cannot hold is coerced to missing. A column of
  nanosecond resolution holds midnight of 1677-09-22 to 2262-04-11; a coarser
  resolution, which later versions of the library choose, holds more.
\<close>

definition ns_bounds :: "nat \<Rightarrow> nat \<Rightarrow> nat \<Rightarrow> bool" where
  "ns_bounds y m d =
     ((1677 < y \<or> (y = 1677 \<and> (9 < m \<or> (m = 9 \<and> 22 \<le> d))))
      \<and> (y < 2262 \<or> (y = 2262 \<and> (m < 4 \<or> (m = 4 \<and> d \<le> 11)))))"

definition timestamp_ok :: "pandas \<Rightarrow> nat \<Rightarrow> nat \<Rightarrow> nat \<Rightarrow> bool" where
  "timestamp_ok lib y m d = (ns_bounds y m d \<or> timestamp_wider lib y m d)"

text \<open>A number is turned into its text, which has no slash and so does not match.\<close>

fun to_datetime :: "pandas \<Rightarrow> cell \<Rightarrow> cell" where
  "to_datetime lib (Str s) =
     (case strptime_date s of
        None \<Rightarrow> NaN
      | Some (y, m, d) \<Rightarrow> if timestamp_ok lib y m d then Timestamp y m d else NaN)"
| "to_datetime lib (Timestamp y m d) = (if timestamp_ok lib y m d then Timestamp y m d else NaN)"
| "to_datetime lib (Num m k) = NaN"
| "to_datetime lib NaN = NaN"

text \<open>\<open>DataCleaner._clean_and_convert_date\<close>; the logging reads the result only.\<close>

definition clean_and_convert_date :: "pandas \<Rightarrow> cell list \<Rightarrow> cell list" where
  "clean_and_convert_date lib date_series = map (to_datetime lib) date_series"


section \<open>Cleaner: type conversion\<close>

text \<open>
  \<open>DataCleaner.convert_data_types\<close>: the Price and the Date column are replaced by their
  conversions; marking City and Commodity as categories changes no value. Both
  conversions coerce what they cannot convert, and the method catches every exception
  itself, so it always returns a table with the rows and the Commodity and City columns
  it was given.
\<close>

definition set_dates :: "long_table \<Rightarrow> cell list \<Rightarrow> long_table" where
  "set_dates df dates = map (\<lambda>(r, d). r\<lparr>Date := d\<rparr>) (zip df dates)"

definition convert_data_types :: "pandas \<Rightarrow> long_table \<Rightarrow> long_table" where
  "convert_data_types lib df =
     (let df1 = set_prices df (clean_and_convert_price lib (map Price df))
      in set_dates df1 (clean_and_convert_date lib (map Date df1)))"

section \<open>Loader: discovery\<close>

text \<open>
  What the loader sees of the disk: whether the root directory exists, the files
  below it that match the pattern, in the order of enumeration, and for each path the
  table that \<open>pd.read_excel\<close> returns, or \<open>None\<close> where it raises.
\<close>

record file_system =
  root_exists :: bool
  rglob :: "path list"
  read_excel :: "path \<Rightarrow> dataframe option"

text \<open>\<open>DataLoader.load_excel_file\<close>: any exception of the reader is caught and \<open>None\<close> returned.\<close>

definition load_excel_file :: "file_system \<Rightarrow> path \<Rightarrow> dataframe option" where
  "load_excel_file fs file_path = read_excel fs file_path"

text \<open>\<open>DataLoader._should_process_city\<close>.\<close>

definition should_process_city :: "config \<Rightarrow> path \<Rightarrow> error + bool" where
  "should_process_city cfg file_path =
     (case target_cities cfg of
        None \<Rightarrow> Inr True
      | Some cities \<Rightarrow>
          (case extract_city_from_path file_path of
             Inl e \<Rightarrow> Inl e
           | Inr city_name \<Rightarrow> Inr (city_name \<in> set cities)))"

text \<open>\<open>DataLoader._filter_files_by_criteria\<close>: the year check first, then the city check.\<close>

fun filter_files_by_criteria :: "config \<Rightarrow> path list \<Rightarrow> error + path list" where
  "filter_files_by_criteria cfg [] = Inr []"
| "filter_files_by_criteria cfg (file_path # files) =
     (if \<not> should_process_year cfg file_path then filter_files_by_criteria cfg files
      else
        (case should_process_city cfg file_path of
           Inl e \<Rightarrow> Inl e
         | Inr keep \<Rightarrow>
             (case filter_files_by_criteria cfg files of
                Inl e \<Rightarrow> Inl e
              | Inr rest \<Rightarrow> Inr (if keep then file_path # rest else rest))))"

text \<open>\<open>DataLoader.find_excel_files\<close>.\<close>

definition find_excel_files :: "file_system \<Rightarrow> config \<Rightarrow> error + path list" where
  "find_excel_files fs cfg =
     (if \<not> root_exists fs then Inl FileNotFoundError
      else filter_files_by_criteria cfg (rglob fs))"

section \<open>Consolidator\<close>

text \<open>
  \<open>DataConsolidator._process_single_file\<close>. The body runs inside \<open>try\<close>, and every
  exception makes the method return \<open>None\<close>: the \<open>IndexError\<close> of the city lookup in
  \<open>clean_dataframe\<close> and the \<open>ValueError\<close> and \<open>KeyError\<close> of \<open>melt\<close>.
\<close>

definition process_single_file ::
  "pandas \<Rightarrow> file_system \<Rightarrow> config \<Rightarrow> string list \<Rightarrow> path \<Rightarrow> long_table option" where
  "process_single_file lib fs cfg targets file_path =
     (case load_excel_file fs file_path of
        None \<Rightarrow> None
      | Some df \<Rightarrow>
          (case validate_dataframe cfg df file_path of
             (is_valid, issues) \<Rightarrow>
               if \<not> is_valid then None
               else
                 (case clean_dataframe cfg df file_path of
                    Inl e \<Rightarrow> None
                  | Inr df1 \<Rightarrow>
                      (case transform_to_long_format cfg df1 of
                         Inl e \<Rightarrow> None
                       | Inr long_df \<Rightarrow>
                           (let long_df1 = handle_missing_values cfg long_df;
                                long_df2 = convert_data_types lib long_df1;
                                filtered_df = filter_commodities long_df2 targets
                            in if filtered_df \<noteq> [] then Some filtered_df else None)))))"

text \<open>The loop of \<open>consolidate_data\<close> over the discovered files.\<close>

fun process_files ::
  "pandas \<Rightarrow> file_system \<Rightarrow> config \<Rightarrow> string list \<Rightarrow> path list \<Rightarrow> long_table list" where
  "process_files lib fs cfg targets [] = []"
| "process_files lib fs cfg targets (file_path # files) =
     (case process_single_file lib fs cfg targets file_path of
        None \<Rightarrow> process_files lib fs cfg targets files
      | Some processed_df \<Rightarrow> processed_df # process_files lib fs cfg targets files)"

text \<open>
  \<open>consolidate_data\<close> after discovery: an empty table when no file gave one,
  \<open>pd.concat(..., ignore_index=True)\<close> otherwise.
\<close>

definition consolidate_files ::
  "pandas \<Rightarrow> file_system \<Rightarrow> config \<Rightarrow> string list \<Rightarrow> path list \<Rightarrow> long_table" where
  "consolidate_files lib fs cfg targets excel_files =
     (let processed_dataframes = process_files lib fs cfg targets excel_files
      in if processed_dataframes = [] then [] else concat processed_dataframes)"

text \<open>\<open>DataConsolidator.consolidate_data\<close>; an exception of the discovery is not caught.\<close>

definition consolidate_data ::
  "pandas \<Rightarrow> file_system \<Rightarrow> config \<Rightarrow> string list \<Rightarrow> error + long_table" where
  "consolidate_data lib fs cfg targets =
     (case find_excel_files fs cfg of
        Inl e \<Rightarrow> Inl e
      | Inr excel_files \<Rightarrow> Inr (consolidate_files lib fs cfg targets excel_files))"

text \<open>
  \<open>DataConsolidator.save_data\<close>. The environment says which calls succeed; the log
  lists the calls made. Creating the output directory is outside every \<open>try\<close>.
\<close>

record io_env =
  mkdir_ok :: "string \<Rightarrow> bool"
  to_csv_ok :: "path \<Rightarrow> bool"
  to_excel_ok :: "path \<Rightarrow> bool"

datatype io_action = Mkdir string | ToCsv path | ToExcel path

record save_results =
  csv :: bool
  excel :: bool

definition str_or :: "string option \<Rightarrow> string \<Rightarrow> string" where
  "str_or x d = (case x of None \<Rightarrow> d | Some s \<Rightarrow> if s = [] then d else s)"

definition save_data ::
  "io_env \<Rightarrow> config \<Rightarrow> long_table \<Rightarrow> string option \<Rightarrow> string option \<Rightarrow> string option
     \<Rightarrow> error + (save_results \<times> io_action list)" where
  "save_data env cfg df csv_filename excel_filename output_dir =
     (if df = [] then Inr (\<lparr>csv = False, excel = False\<rparr>, [])
      else
        (let csv_file = str_or csv_filename (default_csv_output cfg);
             excel_file = str_or excel_filename (default_excel_output cfg);
             dir = str_or output_dir []
         in if dir \<noteq> [] \<and> \<not> mkdir_ok env dir then Inl OSError
            else
              (let log0 = (if dir \<noteq> [] then [Mkdir dir] else []);
                   csv_path = (if dir \<noteq> [] then [dir, csv_file] else [csv_file]);
                   excel_path = (if dir \<noteq> [] then [dir, excel_file] else [excel_file]);
                   log1 = log0 @ [ToCsv csv_path];
                   results1 = to_csv_ok env csv_path;
                   log2 = log1 @ [ToExcel excel_path];
                   results2 = to_excel_ok env excel_path
               in Inr (\<lparr>csv = results1, excel = results2\<rparr>, log2))))"

text \<open>Environments in which the directory cannot be created, and in which only the CSV writer fails.\<close>

definition no_mkdir_env :: io_env where
  "no_mkdir_env = \<lparr>mkdir_ok = (\<lambda>d. False), to_csv_ok = (\<lambda>p. True), to_excel_ok = (\<lambda>p. True)\<rparr>"

definition no_csv_env :: io_env where
  "no_csv_env = \<lparr>mkdir_ok = (\<lambda>d. True), to_csv_ok = (\<lambda>p. False), to_excel_ok = (\<lambda>p. True)\<rparr>"

text \<open>
  A disk with two readable spreadsheets of one city and, between them in the order of
  enumeration, a file that cannot be read.
\<close>

definition sample_fs :: file_system where
  "sample_fs =
     \<lparr>root_exists = True,
      rglob = [ [''data'', ''kota-pontianak'', ''2023.xlsx''],
                [''data'', ''kota-singkawang'', ''2023.xlsx''],
                [''data'', ''kota-pontianak'', ''2024.xlsx''] ],
      read_excel = (\<lambda>p. if p = [''data'', ''kota-pontianak'', ''2023.xlsx'']
                            \<or> p = [''data'', ''kota-pontianak'', ''2024.xlsx'']
                         then Some sample_sheet else None)\<rparr>"

text \<open>
  The library on the numbers and texts of the example tables: a whole number prints as
  its digits, and such digits are read as the number. The examples contain no other
  number and no other text without a comma; for those this table has the empty text
  and the missing value.
\<close>

definition sample_pandas :: pandas where
  "sample_pandas =
     \<lparr>str_of = (\<lambda>c. case map_of [(Num 12000 0, ''12000''), (Num 15000 0, ''15000''),
                                    (Num 15500 0, ''15500''), (Num 26000 0, ''26000'')] c of
                       None \<Rightarrow> [] | Some s \<Rightarrow> s),
      to_numeric = (\<lambda>s. case map_of [(''12000'', Num 12000 0), (''12500'', Num 12500 0),
                                        (''15000'', Num 15000 0), (''15500'', Num 15500 0),
                                        (''26000'', Num 26000 0)] s of
                           None \<Rightarrow> NaN | Some c \<Rightarrow> c),
      timestamp_wider = (\<lambda>y m d. False)\<rparr>"

text \<open>The table that the readable spreadsheet gives for the targets Beras and Telur Ayam.\<close>

definition sample_result :: long_table where
  "sample_result =
     [\<lparr>Commodity = Str ''Beras'', City = Str ''kota-pontianak'', Date = NaN, Price = Num 12500 0\<rparr>,
      \<lparr>Commodity = Str ''Beras'', City = Str ''kota-pontianak'', Date = NaN, Price = Num 12000 0\<rparr>,
      \<lparr>Commodity = Str ''Telur Ayam'', City = Str ''kota-pontianak'', Date = NaN, Price = Num 26000 0\<rparr>,
      \<lparr>Commodity = Str ''Telur Ayam'', City = Str ''kota-pontianak'', Date = NaN, Price = Num 26000 0\<rparr>]"

text \<open>The first value of a column that is not missing, or missing when there is none.\<close>

definition first_known :: "cell list \<Rightarrow> cell" where
  "first_known xs = (case filter (\<lambda>x. \<not> isna x) xs of [] \<Rightarrow> NaN | y # _ \<Rightarrow> y)"

fun is_text :: "cell \<Rightarrow> bool" where
  "is_text (Str s) = True"
| "is_text _ = False"

text \<open>The identifier columns of a table hold texts.\<close>

definition text_keys :: "long_table \<Rightarrow> bool" where
  "text_keys df = list_all (\<lambda>r. is_text (City r) \<and> is_text (Commodity r)) df"

section \<open>Properties of the validator\<close>

lemma validate_dataframe_issues:
  "snd (validate_dataframe cfg df p) =
     (if df_empty df then [empty_issue p] else []) @
     (if original_commodity_col cfg \<notin> set (columns df) then [missing_column_issue cfg p] else []) @
     (if int (length (columns df)) < min_expected_columns cfg then [insufficient_issue p] else [])"
  by (simp add: validate_dataframe_def Let_def empty_issue_def missing_column_issue_def
      insufficient_issue_def)

lemma validate_dataframe_ok:
  "fst (validate_dataframe cfg df p) = (snd (validate_dataframe cfg df p) = [])"
  by (simp add: validate_dataframe_def Let_def)

text \<open>
  C9 (as amended). For every configuration, table and source path, the issues returned by
  \<open>validate_dataframe\<close> are exactly: the empty-table message when the table is empty in
  pandas' sense (no rows, or no columns), then the missing-column message when the
  original commodity column is absent, then the insufficient-columns message when there
  are fewer columns than the configured minimum; each check contributes whether or not
  the others fail, and the flag is true exactly when no issue was appended. The function
  only reads the table.
\<close>

theorem validate_dataframe_checks:
  "snd (validate_dataframe cfg df p) =
     (if df_empty df then [empty_issue p] else []) @
     (if original_commodity_col cfg \<notin> set (columns df) then [missing_column_issue cfg p] else []) @
     (if int (length (columns df)) < min_expected_columns cfg then [insufficient_issue p] else [])
   \<and> fst (validate_dataframe cfg df p) = (snd (validate_dataframe cfg df p) = [])"
  using validate_dataframe_issues validate_dataframe_ok by blast

theorem validate_dataframe_checks_witness:
  "validate_dataframe default_config
     \<lparr>columns = [''No'', ''Jan-18''], rows = [ [Num 1 0, Num 12000 0] ]\<rparr> [''kota-pontianak'', ''2023.xlsx'']
   = (False, [''Missing '' @ [CHR 0x27] @ ''Komoditas (Rp)'' @ [CHR 0x27] @ '' column in 2023.xlsx''])"
  using validate_dataframe_checks [of default_config
      "\<lparr>columns = [''No'', ''Jan-18''], rows = [ [Num 1 0, Num 12000 0] ]\<rparr>"
      "[''kota-pontianak'', ''2023.xlsx'']"]
  by (simp add: prod_eq_iff df_empty_def default_config_def missing_column_issue_def path_name_def)

text \<open>
  The claim as worded names the first check "zero rows". A table with one row and no
  columns has a row, yet the empty-table message is appended: three messages for two
  failed checks of the claim.
\<close>

theorem validate_dataframe_zero_rows_counterexample:
  "length (rows \<lparr>columns = [], rows = [ [] ]\<rparr>) = 1 \<and>
   snd (validate_dataframe default_config \<lparr>columns = [], rows = [ [] ]\<rparr> [''f.xlsx'']) =
     [''Empty DataFrame from f.xlsx'',
      ''Missing '' @ [CHR 0x27] @ ''Komoditas (Rp)'' @ [CHR 0x27] @ '' column in f.xlsx'',
      ''Insufficient columns in f.xlsx'']"
  by (simp add: validate_dataframe_def df_empty_def default_config_def path_name_def)

section \<open>Properties of the commodity filter\<close>

lemma filter_commodities_member:
  "r \<in> set (filter_commodities df targets) \<Longrightarrow> \<exists>s \<in> set targets. Commodity r = Str s"
  by (auto simp: filter_commodities_def isin_def split: cell.splits)

lemma filter_commodities_length:
  "length (filter_commodities df targets) \<le> length df"
  by (simp add: filter_commodities_def)

text \<open>
  C3. For every table and target list, every row of the output of
  \<open>filter_commodities\<close> has a Commodity that is a member of the target list, the output has
  at most as many rows as the input, and the result is a new object: the input table,
  and every other table of the store, is as it was.
\<close>

theorem filter_commodities_closure:
  assumes "filter_commodities_st st df targets = Inr (st', out)"
  shows "(\<forall>r \<in> set (st' ! out). \<exists>s \<in> set targets. Commodity r = Str s)
       \<and> length (st' ! out) \<le> length (st ! df)
       \<and> out \<noteq> df
       \<and> (\<forall>a < length st. st' ! a = st ! a)"
proof -
  from assms have df: "df < length st"
    and st': "st' = st @ [filter_commodities (st ! df) targets]"
    and out: "out = length st"
    by (auto simp: filter_commodities_st_def split: if_splits)
  have res: "st' ! out = filter_commodities (st ! df) targets"
    by (simp add: st' out)
  show ?thesis
    using df out filter_commodities_member [of _ "st ! df" targets]
      filter_commodities_length [of "st ! df" targets]
    by (auto simp: res st' nth_append)
qed

theorem filter_commodities_closure_witness:
  "filter_commodities_st
     [ [\<lparr>Commodity = Str ''Beras'', City = Str ''kota-pontianak'', Date = Str ''Jan-18'', Price = Num 12000 0\<rparr>,
        \<lparr>Commodity = Str ''Unknown'', City = Str ''kota-pontianak'', Date = Str ''Jan-18'', Price = Num 15000 0\<rparr>] ]
     0 [''Beras'', ''Telur Ayam'']
   = Inr ([ [\<lparr>Commodity = Str ''Beras'', City = Str ''kota-pontianak'', Date = Str ''Jan-18'', Price = Num 12000 0\<rparr>,
             \<lparr>Commodity = Str ''Unknown'', City = Str ''kota-pontianak'', Date = Str ''Jan-18'', Price = Num 15000 0\<rparr>],
            [\<lparr>Commodity = Str ''Beras'', City = Str ''kota-pontianak'', Date = Str ''Jan-18'', Price = Num 12000 0\<rparr>] ], 1)
   \<and> (1::nat) \<noteq> 0"
proof -
  have run: "filter_commodities_st
     [ [\<lparr>Commodity = Str ''Beras'', City = Str ''kota-pontianak'', Date = Str ''Jan-18'', Price = Num 12000 0\<rparr>,
        \<lparr>Commodity = Str ''Unknown'', City = Str ''kota-pontianak'', Date = Str ''Jan-18'', Price = Num 15000 0\<rparr>] ]
     0 [''Beras'', ''Telur Ayam'']
   = Inr ([ [\<lparr>Commodity = Str ''Beras'', City = Str ''kota-pontianak'', Date = Str ''Jan-18'', Price = Num 12000 0\<rparr>,
             \<lparr>Commodity = Str ''Unknown'', City = Str ''kota-pontianak'', Date = Str ''Jan-18'', Price = Num 15000 0\<rparr>],
            [\<lparr>Commodity = Str ''Beras'', City = Str ''kota-pontianak'', Date = Str ''Jan-18'', Price = Num 12000 0\<rparr>] ], 1)"
    by (simp add: filter_commodities_st_def filter_commodities_def isin_def)
  from filter_commodities_closure [OF run] show ?thesis using run by simp
qed

section \<open>Properties of the year predicate\<close>

lemma should_process_year_nonzero_bounds:
  assumes "year_range_start cfg \<noteq> Some 0" and "year_range_end cfg \<noteq> Some 0"
  shows "should_process_year cfg p = year_predicate_spec cfg p"
proof (cases "py_int (path_stem p)")
  case None
  then show ?thesis by (simp add: should_process_year_def year_predicate_spec_def)
next
  case (Some y)
  show ?thesis
  proof (cases "target_years cfg")
    case (Some ys)
    with \<open>py_int (path_stem p) = Some y\<close> show ?thesis
      by (simp add: should_process_year_def year_predicate_spec_def)
  next
    case None
    with \<open>py_int (path_stem p) = Some y\<close> assms show ?thesis
      by (cases "year_range_start cfg"; cases "year_range_end cfg")
         (simp_all add: should_process_year_def year_predicate_spec_def)
  qed
qed

lemma stem_2023: "path_stem [''data'', ''kota-pontianak'', ''2023.xlsx''] = ''2023''"
  by (simp add: path_stem_def path_name_def rfind_def)

lemma int_2023: "py_int ''2023'' = Some 2023"
  by (simp add: py_int_def strip_def int_space_def int_body_def digit_of_def)

lemma year_list_examples:
  "should_process_year (default_config\<lparr>target_years := Some [2023]\<rparr>)
      [''data'', ''kota-pontianak'', ''2022.xlsx''] = False
   \<and> should_process_year (default_config\<lparr>target_years := Some [2023]\<rparr>)
      [''data'', ''kota-pontianak'', ''notayear.xlsx''] = True"
  by (simp add: should_process_year_def default_config_def path_stem_def path_name_def rfind_def
      py_int_def strip_def int_space_def int_body_def digit_of_def)

text \<open>
  C4. The claim asks that a file whose name parses as year \<open>y\<close> be included, under a
  configured range, exactly when \<open>start \<le> y \<le> end\<close>. With no year list, no start and
  the end of the range set to \<open>0\<close>, the file \<open>2023.xlsx\<close> is included by
  \<open>_should_process_year\<close>, although \<open>2023 \<le> 0\<close> is false: the bound \<open>0\<close> is read as
  absent.
\<close>

theorem year_range_end_zero_included:
  "should_process_year (default_config\<lparr>year_range_start := None, year_range_end := Some 0\<rparr>)
      [''data'', ''kota-pontianak'', ''2023.xlsx''] = True
   \<and> year_predicate_spec (default_config\<lparr>year_range_start := None, year_range_end := Some 0\<rparr>)
      [''data'', ''kota-pontianak'', ''2023.xlsx''] = False"
  by (simp add: should_process_year_def year_predicate_spec_def default_config_def stem_2023 int_2023)

section \<open>Properties of the reshaping\<close>



lemma clean_sample_sheet:
  "clean_dataframe default_config sample_sheet [''data'', ''kota-pontianak'', f] = Inr sample_wide"
  by (simp add: clean_dataframe_def default_config_def sample_sheet_def sample_wide_def
      drop_columns_def rename_column_def set_column_def extract_city_from_path_def)

lemma melt_sample_wide: "transform_to_long_format default_config sample_wide = Inr sample_long"
  by (simp add: transform_to_long_format_def default_config_def sample_wide_def sample_long_def
      value_vars_def melt_row_def cell_at_def upt_rec)





section \<open>Properties of the missing-value handling\<close>

lemma length_group_ffill: "length (group_ffill seen df) = length df"
  by (induction df arbitrary: seen) auto

lemma length_bfill: "length (bfill xs) = length xs"
  by (induction xs) (auto simp: Let_def)

lemma length_set_prices: "length ps = length df \<Longrightarrow> length (set_prices df ps) = length df"
  by (simp add: set_prices_def)

lemma triple_set_prices:
  "length ps = length df \<Longrightarrow> map triple (set_prices df ps) = map triple df"
  by (induction df ps rule: list_induct2') (auto simp: set_prices_def triple_def)

lemma triple_replace_indicators:
  "map triple (replace_indicators inds df) = map triple df"
proof (induction inds arbitrary: df)
  case Nil
  then show ?case by (simp add: replace_indicators_def)
next
  case (Cons a inds)
  have "map triple (map (\<lambda>r. r\<lparr>Price := replace_value a (Price r)\<rparr>) df) = map triple df"
    by (simp add: triple_def)
  with Cons show ?case by (simp add: replace_indicators_def)
qed

lemma length_replace_indicators: "length (replace_indicators inds df) = length df"
  using triple_replace_indicators [of inds df] by (metis length_map)

lemma row_key_set_prices:
  "length ps = length df \<Longrightarrow> map row_key (set_prices df ps) = map row_key df"
  by (induction df ps rule: list_induct2') (auto simp: set_prices_def row_key_def)

lemma handle_missing_values_sorted: "sorted (map row_key (handle_missing_values cfg df))"
proof -
  let ?df2 = "sort_values (replace_indicators (missing_value_indicators cfg) df)"
  have "map row_key (handle_missing_values cfg df) = map row_key ?df2"
    by (simp add: handle_missing_values_def Let_def row_key_set_prices length_bfill length_group_ffill)
  then show ?thesis by (simp add: sort_values_def)
qed

text \<open>
  C10. For every input table, \<open>handle_missing_values\<close> returns as many rows as it was
  given, and the multiset of (City, Commodity, Date) triples of the output is that of the
  input: rows are reordered and only their Price is written.
\<close>

theorem handle_missing_values_frame:
  "length (handle_missing_values cfg df) = length df
   \<and> mset (map triple (handle_missing_values cfg df)) = mset (map triple df)"
proof -
  let ?df1 = "replace_indicators (missing_value_indicators cfg) df"
  let ?df2 = "sort_values ?df1"
  let ?ps = "bfill (group_ffill Map.empty ?df2)"
  have len: "length ?ps = length ?df2"
    by (simp add: length_bfill length_group_ffill)
  have out: "handle_missing_values cfg df = set_prices ?df2 ?ps"
    by (simp add: handle_missing_values_def Let_def)
  have l2: "length ?df2 = length df"
    by (simp add: sort_values_def length_replace_indicators)
  have "mset (map triple ?df2) = image_mset triple (mset ?df1)"
    by (simp add: sort_values_def)
  also have "\<dots> = mset (map triple ?df1)" by simp
  also have "\<dots> = mset (map triple df)" by (simp add: triple_replace_indicators)
  finally have m: "mset (map triple ?df2) = mset (map triple df)" .
  show ?thesis
    using len l2 m by (simp add: out length_set_prices triple_set_prices)
qed

lemma sorted_gap_long:
  "sort_values (replace_indicators (missing_value_indicators default_config) gap_long) =
     [\<lparr>Commodity = Str ''Beras'', City = Str ''kota-pontianak'', Date = Str ''Jan-18'', Price = NaN\<rparr>,
      \<lparr>Commodity = Str ''Telur Ayam'', City = Str ''kota-pontianak'', Date = Str ''Jan-18'', Price = Num 25000 0\<rparr>]"
  by (simp add: sort_values_def replace_indicators_def default_config_def gap_long_def
      replace_value_def row_key_def)

text \<open>
  C1. The claim asks for forward fill and then backward fill within each
  (City, Commodity) group, so that a missing price only ever takes a value of its own
  group. On a table where Beras has no price at all and Telur Ayam has one,
  \<open>handle_missing_values\<close> gives Beras the price of Telur Ayam, where the fill of the
  claim leaves it missing: the backward fill runs over the whole column.
\<close>

theorem handle_missing_values_crosses_groups:
  "handle_missing_values default_config gap_long =
     [\<lparr>Commodity = Str ''Beras'', City = Str ''kota-pontianak'', Date = Str ''Jan-18'', Price = Num 25000 0\<rparr>,
      \<lparr>Commodity = Str ''Telur Ayam'', City = Str ''kota-pontianak'', Date = Str ''Jan-18'', Price = Num 25000 0\<rparr>]
   \<and> handle_missing_values_spec default_config gap_long =
     [\<lparr>Commodity = Str ''Beras'', City = Str ''kota-pontianak'', Date = Str ''Jan-18'', Price = NaN\<rparr>,
      \<lparr>Commodity = Str ''Telur Ayam'', City = Str ''kota-pontianak'', Date = Str ''Jan-18'', Price = Num 25000 0\<rparr>]"
  by (simp add: handle_missing_values_def handle_missing_values_spec_def Let_def sorted_gap_long
      set_prices_def fill_spec_def known_prices_def same_group_def upt_rec)

section \<open>Properties of the price conversion\<close>

text \<open>
  What holds of the price conversion whatever the library's parser and printer do: one
  result per cell, and the parser is given the text of the cell without its commas.
\<close>

lemma clean_and_convert_price_length: "length (clean_and_convert_price lib xs) = length xs"
  by (simp add: clean_and_convert_price_def)

lemma remove_commas_no_comma: "CHR '','' \<notin> set (remove_commas s)"
  by (simp add: remove_commas_def)

lemma clean_and_convert_price_text:
  "clean_and_convert_price lib [Str s] = [to_numeric lib (remove_commas s)]"
  by (simp add: clean_and_convert_price_def astype_str_def)

section \<open>Properties of the date conversion\<close>











lemma regex_space_not_slash: "regex_space c \<Longrightarrow> c \<noteq> CHR ''/''"
  by (auto simp: regex_space_def Let_def)



























section \<open>Properties of the consolidator\<close>

lemma process_files_append:
  "process_files lib fs cfg targets (ps @ qs)
     = process_files lib fs cfg targets ps @ process_files lib fs cfg targets qs"
  by (induction ps) (auto split: option.splits)

lemma concat_process_files:
  "concat (process_files lib fs cfg targets files)
     = concat (map (\<lambda>f. case process_single_file lib fs cfg targets f of None \<Rightarrow> [] | Some t \<Rightarrow> t) files)"
  by (induction files) (auto split: option.splits)

lemma consolidate_files_concat:
  "consolidate_files lib fs cfg targets files
     = concat (map (\<lambda>f. case process_single_file lib fs cfg targets f of None \<Rightarrow> [] | Some t \<Rightarrow> t) files)"
proof -
  have "consolidate_files lib fs cfg targets files = concat (process_files lib fs cfg targets files)"
    by (simp add: consolidate_files_def Let_def)
  then show ?thesis by (simp only: concat_process_files)
qed

lemma process_single_file_load_error:
  "load_excel_file fs p = None \<Longrightarrow> process_single_file lib fs cfg targets p = None"
  by (simp add: process_single_file_def)

lemma process_single_file_invalid:
  "load_excel_file fs p = Some df \<Longrightarrow> \<not> fst (validate_dataframe cfg df p) \<Longrightarrow>
   process_single_file lib fs cfg targets p = None"
  by (cases "validate_dataframe cfg df p") (simp add: process_single_file_def)

lemma process_single_file_nonempty:
  "process_single_file lib fs cfg targets p = Some t \<Longrightarrow> t \<noteq> [] \<and> (\<forall>r \<in> set t. isin (Commodity r) targets)"
  by (auto simp: process_single_file_def Let_def filter_commodities_def
      split: option.splits prod.splits if_splits sum.splits)

lemma process_single_file_raises:
  "load_excel_file fs p = Some df \<Longrightarrow>
   clean_dataframe cfg df p = Inl e \<or>
     (\<exists>df1. clean_dataframe cfg df p = Inr df1 \<and> transform_to_long_format cfg df1 = Inl e) \<Longrightarrow>
   process_single_file lib fs cfg targets p = None"
  by (cases "validate_dataframe cfg df p") (auto simp: process_single_file_def)

lemma process_single_file_no_target:
  "load_excel_file fs p = Some df \<Longrightarrow> clean_dataframe cfg df p = Inr df1 \<Longrightarrow>
   transform_to_long_format cfg df1 = Inr long_df \<Longrightarrow>
   filter_commodities (convert_data_types lib (handle_missing_values cfg long_df)) targets = [] \<Longrightarrow>
   process_single_file lib fs cfg targets p = None"
  by (cases "validate_dataframe cfg df p") (simp add: process_single_file_def)

lemma process_single_file_kept:
  "load_excel_file fs p = Some df \<Longrightarrow> fst (validate_dataframe cfg df p) \<Longrightarrow>
   clean_dataframe cfg df p = Inr df1 \<Longrightarrow>
   transform_to_long_format cfg df1 = Inr long_df \<Longrightarrow>
   filter_commodities (convert_data_types lib (handle_missing_values cfg long_df)) targets \<noteq> [] \<Longrightarrow>
   process_single_file lib fs cfg targets p
     = Some (filter_commodities (convert_data_types lib (handle_missing_values cfg long_df)) targets)"
  by (cases "validate_dataframe cfg df p") (simp add: process_single_file_def)

text \<open>
  C6. For every list of discovered files the consolidated table is the tables of the
  files that gave one, one after the other in the order of the files: a file whose
  processing fails contributes nothing and takes nothing away from the files before
  and after it, and a file that gives a table contributes exactly that table. A file
  that cannot be loaded fails, a file whose table does not validate fails, a file whose
  cleaning or reshaping raises fails, and a file whose table has no target commodity
  fails; a file that passes all of these gives its filtered table, which is not empty.
  When discovery succeeds, \<open>consolidate_data\<close> returns the consolidated table, never an
  error, and the empty table when no file gave one.
\<close>

theorem consolidate_data_skips_failures:
  "consolidate_files lib fs cfg targets files
     = concat (map (\<lambda>f. case process_single_file lib fs cfg targets f of None \<Rightarrow> [] | Some t \<Rightarrow> t) files)
   \<and> (process_single_file lib fs cfg targets p = None \<longrightarrow>
        consolidate_files lib fs cfg targets (ps @ p # qs)
          = consolidate_files lib fs cfg targets ps @ consolidate_files lib fs cfg targets qs)
   \<and> (process_single_file lib fs cfg targets p = Some t \<longrightarrow>
        t \<noteq> [] \<and> consolidate_files lib fs cfg targets (ps @ p # qs)
          = consolidate_files lib fs cfg targets ps @ t @ consolidate_files lib fs cfg targets qs)
   \<and> (load_excel_file fs p = None \<longrightarrow> process_single_file lib fs cfg targets p = None)
   \<and> (load_excel_file fs p = Some df \<longrightarrow> \<not> fst (validate_dataframe cfg df p) \<longrightarrow>
        process_single_file lib fs cfg targets p = None)
   \<and> (load_excel_file fs p = Some df \<longrightarrow>
        clean_dataframe cfg df p = Inl e \<or>
          (\<exists>df1. clean_dataframe cfg df p = Inr df1 \<and> transform_to_long_format cfg df1 = Inl e) \<longrightarrow>
        process_single_file lib fs cfg targets p = None)
   \<and> (load_excel_file fs p = Some df \<longrightarrow> clean_dataframe cfg df p = Inr df1 \<longrightarrow>
        transform_to_long_format cfg df1 = Inr long_df \<longrightarrow>
        filter_commodities (convert_data_types lib (handle_missing_values cfg long_df)) targets = [] \<longrightarrow>
        process_single_file lib fs cfg targets p = None)
   \<and> (load_excel_file fs p = Some df \<longrightarrow> fst (validate_dataframe cfg df p) \<longrightarrow>
        clean_dataframe cfg df p = Inr df1 \<longrightarrow>
        transform_to_long_format cfg df1 = Inr long_df \<longrightarrow>
        filter_commodities (convert_data_types lib (handle_missing_values cfg long_df)) targets \<noteq> [] \<longrightarrow>
        process_single_file lib fs cfg targets p
          = Some (filter_commodities (convert_data_types lib (handle_missing_values cfg long_df)) targets))
   \<and> (find_excel_files fs cfg = Inr files \<longrightarrow>
        consolidate_data lib fs cfg targets = Inr (consolidate_files lib fs cfg targets files))
   \<and> (find_excel_files fs cfg = Inr files \<longrightarrow>
        (\<forall>f \<in> set files. process_single_file lib fs cfg targets f = None) \<longrightarrow>
        consolidate_data lib fs cfg targets = Inr [])"
proof -
  have a: "consolidate_files lib fs cfg targets files
     = concat (map (\<lambda>f. case process_single_file lib fs cfg targets f of None \<Rightarrow> [] | Some t \<Rightarrow> t) files)"
    by (rule consolidate_files_concat)
  have b: "process_single_file lib fs cfg targets p = None \<longrightarrow>
        consolidate_files lib fs cfg targets (ps @ p # qs)
          = consolidate_files lib fs cfg targets ps @ consolidate_files lib fs cfg targets qs"
    by (simp add: consolidate_files_concat)
  have c: "process_single_file lib fs cfg targets p = Some t \<longrightarrow>
        t \<noteq> [] \<and> consolidate_files lib fs cfg targets (ps @ p # qs)
          = consolidate_files lib fs cfg targets ps @ t @ consolidate_files lib fs cfg targets qs"
    using process_single_file_nonempty [of lib fs cfg targets p t]
    by (simp add: consolidate_files_concat)
  have d: "load_excel_file fs p = None \<longrightarrow> process_single_file lib fs cfg targets p = None"
    using process_single_file_load_error by blast
  have e: "load_excel_file fs p = Some df \<longrightarrow> \<not> fst (validate_dataframe cfg df p) \<longrightarrow>
        process_single_file lib fs cfg targets p = None"
    using process_single_file_invalid by blast
  have f: "load_excel_file fs p = Some df \<longrightarrow>
        clean_dataframe cfg df p = Inl e \<or>
          (\<exists>df1. clean_dataframe cfg df p = Inr df1 \<and> transform_to_long_format cfg df1 = Inl e) \<longrightarrow>
        process_single_file lib fs cfg targets p = None"
    using process_single_file_raises [of fs p df cfg e lib targets] by blast
  have g: "load_excel_file fs p = Some df \<longrightarrow> clean_dataframe cfg df p = Inr df1 \<longrightarrow>
        transform_to_long_format cfg df1 = Inr long_df \<longrightarrow>
        filter_commodities (convert_data_types lib (handle_missing_values cfg long_df)) targets = [] \<longrightarrow>
        process_single_file lib fs cfg targets p = None"
    using process_single_file_no_target by blast
  have h: "load_excel_file fs p = Some df \<longrightarrow> fst (validate_dataframe cfg df p) \<longrightarrow>
        clean_dataframe cfg df p = Inr df1 \<longrightarrow>
        transform_to_long_format cfg df1 = Inr long_df \<longrightarrow>
        filter_commodities (convert_data_types lib (handle_missing_values cfg long_df)) targets \<noteq> [] \<longrightarrow>
        process_single_file lib fs cfg targets p
          = Some (filter_commodities (convert_data_types lib (handle_missing_values cfg long_df)) targets)"
    using process_single_file_kept by blast
  have i: "find_excel_files fs cfg = Inr files \<longrightarrow>
        consolidate_data lib fs cfg targets = Inr (consolidate_files lib fs cfg targets files)"
    by (simp add: consolidate_data_def)
  have j: "find_excel_files fs cfg = Inr files \<longrightarrow>
        (\<forall>f \<in> set files. process_single_file lib fs cfg targets f = None) \<longrightarrow>
        consolidate_data lib fs cfg targets = Inr []"
    by (simp add: consolidate_data_def consolidate_files_concat)
  show ?thesis
    apply (intro conjI)
    using a apply assumption
    using b apply assumption
    using c apply assumption
    using d apply assumption
    using e apply assumption
    using f apply assumption
    using g apply assumption
    using h apply assumption
    using i apply assumption
    using j apply assumption
    done
qed

text \<open>
  C7 (as amended). For an empty table \<open>save_data\<close> returns \<open>csv = False, excel = False\<close>
  and makes no call. For any other table, when no output directory is given, or the
  one given can be created, it returns: it has called the CSV writer and then the
  Excel writer, whatever the first call did, each on its own file, and each flag of the
  result is the success of its own call. When the directory cannot be created, the
  error is raised and neither writer is called.
\<close>

theorem save_data_independent:
  "(df = [] \<longrightarrow>
      save_data env cfg df csv_filename excel_filename output_dir = Inr (\<lparr>csv = False, excel = False\<rparr>, []))
   \<and> (df \<noteq> [] \<longrightarrow> (output_dir = None \<or> output_dir = Some []) \<longrightarrow>
        save_data env cfg df csv_filename excel_filename output_dir
          = Inr (\<lparr>csv = to_csv_ok env [str_or csv_filename (default_csv_output cfg)],
                  excel = to_excel_ok env [str_or excel_filename (default_excel_output cfg)]\<rparr>,
                 [ToCsv [str_or csv_filename (default_csv_output cfg)],
                  ToExcel [str_or excel_filename (default_excel_output cfg)]]))
   \<and> (df \<noteq> [] \<longrightarrow> output_dir = Some dir \<longrightarrow> dir \<noteq> [] \<longrightarrow> mkdir_ok env dir \<longrightarrow>
        save_data env cfg df csv_filename excel_filename output_dir
          = Inr (\<lparr>csv = to_csv_ok env [dir, str_or csv_filename (default_csv_output cfg)],
                  excel = to_excel_ok env [dir, str_or excel_filename (default_excel_output cfg)]\<rparr>,
                 [Mkdir dir,
                  ToCsv [dir, str_or csv_filename (default_csv_output cfg)],
                  ToExcel [dir, str_or excel_filename (default_excel_output cfg)]]))
   \<and> (df \<noteq> [] \<longrightarrow> output_dir = Some dir \<longrightarrow> dir \<noteq> [] \<longrightarrow> \<not> mkdir_ok env dir \<longrightarrow>
        save_data env cfg df csv_filename excel_filename output_dir = Inl OSError)"
  by (auto simp: save_data_def Let_def str_or_def)

lemma hmv_sample_long:
  "handle_missing_values default_config sample_long =
     [\<lparr>Commodity = Str ''Beras'', City = Str ''kota-pontianak'', Date = Str ''Feb-18'', Price = Str ''12,500''\<rparr>,
      \<lparr>Commodity = Str ''Beras'', City = Str ''kota-pontianak'', Date = Str ''Jan-18'', Price = Num 12000 0\<rparr>,
      \<lparr>Commodity = Str ''Telur Ayam'', City = Str ''kota-pontianak'', Date = Str ''Feb-18'', Price = Num 26000 0\<rparr>,
      \<lparr>Commodity = Str ''Telur Ayam'', City = Str ''kota-pontianak'', Date = Str ''Jan-18'', Price = Num 26000 0\<rparr>,
      \<lparr>Commodity = Str ''Unknown'', City = Str ''kota-pontianak'', Date = Str ''Feb-18'', Price = Num 15500 0\<rparr>,
      \<lparr>Commodity = Str ''Unknown'', City = Str ''kota-pontianak'', Date = Str ''Jan-18'', Price = Num 15000 0\<rparr>]"
  by (simp add: handle_missing_values_def Let_def sort_values_def replace_indicators_def
      default_config_def sample_long_def replace_value_def row_key_def set_prices_def)

lemma convert_sample:
  "convert_data_types sample_pandas
     [\<lparr>Commodity = Str ''Beras'', City = Str ''kota-pontianak'', Date = Str ''Feb-18'', Price = Str ''12,500''\<rparr>,
      \<lparr>Commodity = Str ''Beras'', City = Str ''kota-pontianak'', Date = Str ''Jan-18'', Price = Num 12000 0\<rparr>,
      \<lparr>Commodity = Str ''Telur Ayam'', City = Str ''kota-pontianak'', Date = Str ''Feb-18'', Price = Num 26000 0\<rparr>,
      \<lparr>Commodity = Str ''Telur Ayam'', City = Str ''kota-pontianak'', Date = Str ''Jan-18'', Price = Num 26000 0\<rparr>,
      \<lparr>Commodity = Str ''Unknown'', City = Str ''kota-pontianak'', Date = Str ''Feb-18'', Price = Num 15500 0\<rparr>,
      \<lparr>Commodity = Str ''Unknown'', City = Str ''kota-pontianak'', Date = Str ''Jan-18'', Price = Num 15000 0\<rparr>]
   = [\<lparr>Commodity = Str ''Beras'', City = Str ''kota-pontianak'', Date = NaN, Price = Num 12500 0\<rparr>,
      \<lparr>Commodity = Str ''Beras'', City = Str ''kota-pontianak'', Date = NaN, Price = Num 12000 0\<rparr>,
      \<lparr>Commodity = Str ''Telur Ayam'', City = Str ''kota-pontianak'', Date = NaN, Price = Num 26000 0\<rparr>,
      \<lparr>Commodity = Str ''Telur Ayam'', City = Str ''kota-pontianak'', Date = NaN, Price = Num 26000 0\<rparr>,
      \<lparr>Commodity = Str ''Unknown'', City = Str ''kota-pontianak'', Date = NaN, Price = Num 15500 0\<rparr>,
      \<lparr>Commodity = Str ''Unknown'', City = Str ''kota-pontianak'', Date = NaN, Price = Num 15000 0\<rparr>]"
  by (simp add: convert_data_types_def Let_def set_prices_def set_dates_def
      clean_and_convert_price_def clean_and_convert_date_def remove_commas_def astype_str_def
      sample_pandas_def digit_of_def strptime_date_def match_date_def re_day_def digit_in_def)

lemma process_sample_good:
  "process_single_file sample_pandas sample_fs default_config [''Beras'', ''Telur Ayam'']
     [''data'', ''kota-pontianak'', ''2023.xlsx''] = Some sample_result"
  "process_single_file sample_pandas sample_fs default_config [''Beras'', ''Telur Ayam'']
     [''data'', ''kota-pontianak'', ''2024.xlsx''] = Some sample_result"
proof -
  have v: "validate_dataframe default_config sample_sheet [''data'', ''kota-pontianak'', f] = (True, [])" for f
    by (simp add: validate_dataframe_def df_empty_def default_config_def sample_sheet_def)
  show "process_single_file sample_pandas sample_fs default_config [''Beras'', ''Telur Ayam'']
     [''data'', ''kota-pontianak'', ''2023.xlsx''] = Some sample_result"
    by (simp add: process_single_file_def load_excel_file_def sample_fs_def v clean_sample_sheet
        melt_sample_wide hmv_sample_long convert_sample filter_commodities_def isin_def
        sample_result_def)
  show "process_single_file sample_pandas sample_fs default_config [''Beras'', ''Telur Ayam'']
     [''data'', ''kota-pontianak'', ''2024.xlsx''] = Some sample_result"
    by (simp add: process_single_file_def load_excel_file_def sample_fs_def v clean_sample_sheet
        melt_sample_wide hmv_sample_long convert_sample filter_commodities_def isin_def
        sample_result_def)
qed

lemma process_sample_bad:
  "load_excel_file sample_fs [''data'', ''kota-singkawang'', ''2023.xlsx''] = None"
  by (simp add: load_excel_file_def sample_fs_def)

lemma should_process_year_sample:
  "should_process_year default_config [''data'', ''kota-pontianak'', ''2023.xlsx'']"
  "should_process_year default_config [''data'', ''kota-singkawang'', ''2023.xlsx'']"
  "should_process_year default_config [''data'', ''kota-pontianak'', ''2024.xlsx'']"
  by (simp_all add: should_process_year_def default_config_def path_stem_def path_name_def rfind_def
      py_int_def strip_def int_space_def int_body_def digit_of_def)

lemma should_process_city_sample:
  "should_process_city default_config [''data'', ''kota-pontianak'', ''2023.xlsx''] = Inr True"
  "should_process_city default_config [''data'', ''kota-singkawang'', ''2023.xlsx''] = Inr True"
  "should_process_city default_config [''data'', ''kota-pontianak'', ''2024.xlsx''] = Inr True"
  by (simp_all add: should_process_city_def extract_city_from_path_def default_config_def)

lemma find_sample:
  "find_excel_files sample_fs default_config =
     Inr [ [''data'', ''kota-pontianak'', ''2023.xlsx''],
           [''data'', ''kota-singkawang'', ''2023.xlsx''],
           [''data'', ''kota-pontianak'', ''2024.xlsx''] ]"
  by (simp add: find_excel_files_def sample_fs_def should_process_year_sample
      should_process_city_sample)

theorem consolidate_data_skips_failures_witness:
  "load_excel_file sample_fs [''data'', ''kota-singkawang'', ''2023.xlsx''] = None
   \<and> process_single_file sample_pandas sample_fs default_config [''Beras'', ''Telur Ayam'']
         [''data'', ''kota-singkawang'', ''2023.xlsx''] = None
   \<and> process_single_file sample_pandas sample_fs default_config [''Beras'', ''Telur Ayam'']
         [''data'', ''kota-pontianak'', ''2023.xlsx''] = Some sample_result
   \<and> process_single_file sample_pandas sample_fs default_config [''Beras'', ''Telur Ayam'']
         [''data'', ''kota-pontianak'', ''2024.xlsx''] = Some sample_result
   \<and> find_excel_files sample_fs default_config
       = Inr [ [''data'', ''kota-pontianak'', ''2023.xlsx''],
               [''data'', ''kota-singkawang'', ''2023.xlsx''],
               [''data'', ''kota-pontianak'', ''2024.xlsx''] ]
   \<and> consolidate_data sample_pandas sample_fs default_config [''Beras'', ''Telur Ayam'']
       = Inr (sample_result @ sample_result)
   \<and> length (sample_result @ sample_result) = 8"
proof -
  let ?good = "[''data'', ''kota-pontianak'', ''2023.xlsx'']"
  let ?bad = "[''data'', ''kota-singkawang'', ''2023.xlsx'']"
  let ?good' = "[''data'', ''kota-pontianak'', ''2024.xlsx'']"
  let ?t = "[''Beras'', ''Telur Ayam'']"
  note th = consolidate_data_skips_failures
    [of sample_pandas sample_fs default_config ?t "[?good, ?bad, ?good']" ?bad "[?good]" "[?good']"]
  from th process_sample_bad
  have none: "process_single_file sample_pandas sample_fs default_config ?t ?bad = None"
    by blast
  from th have closed: "consolidate_files sample_pandas sample_fs default_config ?t [?good, ?bad, ?good']
      = concat (map (\<lambda>f. case process_single_file sample_pandas sample_fs default_config ?t f of
                            None \<Rightarrow> [] | Some t \<Rightarrow> t) [?good, ?bad, ?good'])"
    by blast
  have files: "consolidate_files sample_pandas sample_fs default_config ?t [?good, ?bad, ?good']
      = sample_result @ sample_result"
    unfolding closed by (simp add: none process_sample_good)
  from th find_sample
  have "consolidate_data sample_pandas sample_fs default_config ?t
      = Inr (consolidate_files sample_pandas sample_fs default_config ?t [?good, ?bad, ?good'])"
    by blast
  then have all: "consolidate_data sample_pandas sample_fs default_config ?t
      = Inr (sample_result @ sample_result)"
    by (simp add: files)
  have len: "length (sample_result @ sample_result) = 8" by (simp add: sample_result_def)
  from process_sample_bad none process_sample_good find_sample all len show ?thesis by simp
qed

theorem save_data_independent_witness:
  "sample_long \<noteq> []
   \<and> mkdir_ok no_csv_env ''out''
   \<and> \<not> to_csv_ok no_csv_env [''out'', ''master_data_consolidated.csv'']
   \<and> save_data no_csv_env default_config sample_long None None (Some ''out'')
      = Inr (\<lparr>csv = False, excel = True\<rparr>,
             [Mkdir ''out'', ToCsv [''out'', ''master_data_consolidated.csv''],
              ToExcel [''out'', ''master_data_consolidated.xlsx'']])
   \<and> save_data no_csv_env default_config sample_long None None None
      = Inr (\<lparr>csv = False, excel = True\<rparr>,
             [ToCsv [''master_data_consolidated.csv''], ToExcel [''master_data_consolidated.xlsx'']])
   \<and> save_data no_csv_env default_config [] None None (Some ''out'')
      = Inr (\<lparr>csv = False, excel = False\<rparr>, [])"
proof -
  have ne: "sample_long \<noteq> []" by (simp add: sample_long_def)
  have mk: "mkdir_ok no_csv_env ''out''" by (simp add: no_csv_env_def)
  have nc: "\<not> to_csv_ok no_csv_env [''out'', ''master_data_consolidated.csv'']"
    by (simp add: no_csv_env_def)
  have names: "str_or None (default_csv_output default_config) = ''master_data_consolidated.csv''"
    "str_or None (default_excel_output default_config) = ''master_data_consolidated.xlsx''"
    by (simp_all add: str_or_def default_config_def)
  from save_data_independent [of sample_long no_csv_env default_config None None "Some ''out''" "''out''"]
  have run: "save_data no_csv_env default_config sample_long None None (Some ''out'')
      = Inr (\<lparr>csv = False, excel = True\<rparr>,
             [Mkdir ''out'', ToCsv [''out'', ''master_data_consolidated.csv''],
              ToExcel [''out'', ''master_data_consolidated.xlsx'']])"
    using ne mk by (simp add: names) (simp add: no_csv_env_def)
  from save_data_independent [of sample_long no_csv_env default_config None None None "''out''"]
  have nodir: "save_data no_csv_env default_config sample_long None None None
      = Inr (\<lparr>csv = False, excel = True\<rparr>,
             [ToCsv [''master_data_consolidated.csv''], ToExcel [''master_data_consolidated.xlsx'']])"
    using ne by (simp add: names) (simp add: no_csv_env_def)
  from save_data_independent [of "[]" no_csv_env default_config None None "Some ''out''" "''out''"]
  have empty: "save_data no_csv_env default_config [] None None (Some ''out'')
      = Inr (\<lparr>csv = False, excel = False\<rparr>, [])"
    by simp
  from ne mk nc run nodir empty show ?thesis by simp
qed

text \<open>
  The claim as worded has both formats attempted for every table. Creating the output
  directory is outside the two guarded writes: when it fails, the error leaves
  \<open>save_data\<close> and neither format is attempted.
\<close>

theorem save_data_mkdir_counterexample:
  "sample_long \<noteq> []
   \<and> save_data no_mkdir_env default_config sample_long None None (Some ''out'') = Inl OSError"
  by (simp add: save_data_def str_or_def default_config_def no_mkdir_env_def sample_long_def Let_def)

section \<open>The fill on groups that have a price\<close>

text \<open>
  On a table whose identifier columns hold texts, the forward fill of a group followed by
  the backward fill of the whole column gives every row whose group has a price the
  value that the group-wise fill gives it, and that value is not missing; so the number
  of missing prices does not grow. Only groups without any price are filled from another
  group.
\<close>

lemma first_known_Cons: "first_known (x # xs) = (if isna x then first_known xs else x)"
  by (simp add: first_known_def)

lemma bfill_head: "(case bfill xs of [] \<Rightarrow> NaN | y # _ \<Rightarrow> y) = first_known xs"
  by (induction xs) (simp_all add: first_known_Cons Let_def, simp add: first_known_def)

lemma bfill_nth: "i < length xs \<Longrightarrow> bfill xs ! i = first_known (drop i xs)"
proof (induction xs arbitrary: i)
  case Nil then show ?case by simp
next
  case (Cons x xs)
  show ?case
  proof (cases i)
    case 0
    then show ?thesis by (simp add: Let_def bfill_head first_known_Cons)
  next
    case (Suc j)
    with Cons show ?thesis by (simp add: Let_def)
  qed
qed

lemma known_prices_Nil_iff:
  "known_prices r xs = [] \<longleftrightarrow> (\<forall>r' \<in> set xs. \<not> (same_group r r' \<and> \<not> isna (Price r')))"
  by (auto simp: known_prices_def filter_empty_conv)

lemma known_prices_append: "known_prices r (xs @ ys) = known_prices r xs @ known_prices r ys"
  by (simp add: known_prices_def)

lemma known_prices_not_na: "p \<in> set (known_prices r xs) \<Longrightarrow> \<not> isna p"
  by (auto simp: known_prices_def)

lemma group_ffill_nth:
  assumes "\<And>r. r \<in> set t \<Longrightarrow> \<not> isna (City r) \<and> \<not> isna (Commodity r)" and "i < length t"
  shows "group_ffill seen t ! i =
           (case known_prices (t ! i) (rev (take (Suc i) t)) of
              p # _ \<Rightarrow> p
            | [] \<Rightarrow> (case seen (City (t ! i), Commodity (t ! i)) of None \<Rightarrow> NaN | Some v \<Rightarrow> v))"
  using assms
proof (induction t arbitrary: seen i)
  case Nil then show ?case by simp
next
  case (Cons r rs)
  have keys: "\<not> isna (City r)" "\<not> isna (Commodity r)" using Cons.prems(1) by auto
  show ?case
  proof (cases i)
    case 0
    then show ?thesis using keys by (simp add: known_prices_def same_group_def)
  next
    case (Suc j)
    with Cons.prems have j: "j < length rs" by simp
    let ?seen' = "if isna (Price r) then seen else seen((City r, Commodity r) \<mapsto> Price r)"
    have step: "group_ffill seen (r # rs) ! i = group_ffill ?seen' rs ! j"
      using keys Suc by simp
    have IH: "group_ffill ?seen' rs ! j =
           (case known_prices (rs ! j) (rev (take (Suc j) rs)) of
              p # _ \<Rightarrow> p
            | [] \<Rightarrow> (case ?seen' (City (rs ! j), Commodity (rs ! j)) of None \<Rightarrow> NaN | Some v \<Rightarrow> v))"
      using Cons.prems(1) j by (intro Cons.IH) auto
    have kp: "known_prices ((r # rs) ! i) (rev (take (Suc i) (r # rs)))
             = known_prices (rs ! j) (rev (take (Suc j) rs)) @ known_prices (rs ! j) [r]"
      using Suc by (simp add: known_prices_append)
    show ?thesis
    proof (cases "known_prices (rs ! j) (rev (take (Suc j) rs))")
      case (Cons p ps)
      then show ?thesis using step IH kp Suc by simp
    next
      case Nil
      then show ?thesis using step IH kp Suc
        by (auto simp: known_prices_def same_group_def)
    qed
  qed
qed


lemma first_known_skip:
  assumes "j0 < length xs" "i \<le> j0" "\<not> isna (xs ! j0)" "\<And>j. i \<le> j \<Longrightarrow> j < j0 \<Longrightarrow> isna (xs ! j)"
  shows "first_known (drop i xs) = xs ! j0"
  using assms
proof (induction "j0 - i" arbitrary: i)
  case 0
  then have "i = j0" by simp
  with 0 show ?case by (simp add: Cons_nth_drop_Suc [symmetric] first_known_Cons)
next
  case (Suc n)
  then have lt: "i < j0" by simp
  then have il: "i < length xs" using Suc.prems by simp
  have na: "isna (xs ! i)" using Suc.prems(4) [of i] lt by simp
  have "first_known (drop (Suc i) xs) = xs ! j0"
    using Suc.hyps(2) Suc.prems lt by (intro Suc.hyps(1)) auto
  then show ?case using na il by (simp add: Cons_nth_drop_Suc [symmetric] first_known_Cons)
qed

lemma filter_first:
  "filter P xs \<noteq> [] \<Longrightarrow>
   \<exists>n < length xs. P (xs ! n) \<and> (\<forall>k < n. \<not> P (xs ! k)) \<and> hd (filter P xs) = xs ! n"
proof (induction xs)
  case Nil then show ?case by simp
next
  case (Cons x xs)
  show ?case
  proof (cases "P x")
    case True
    then show ?thesis by (intro exI [of _ 0]) simp
  next
    case False
    with Cons obtain n where n: "n < length xs" "P (xs ! n)" "\<forall>k < n. \<not> P (xs ! k)"
      "hd (filter P xs) = xs ! n" by auto
    show ?thesis
    proof (intro exI [of _ "Suc n"] conjI allI impI)
      fix k assume "k < Suc n"
      then show "\<not> P ((x # xs) ! k)" using n(3) False by (cases k) auto
    qed (use n False in auto)
  qed
qed

lemma cell_key_text_inj: "is_text a \<Longrightarrow> is_text b \<Longrightarrow> cell_key a = cell_key b \<Longrightarrow> a = b"
  by (cases a; cases b) auto

lemma lex_drop_last:
  fixes a a' :: "'a::linorder" and b b' :: "'b::linorder" and c c' :: "'c::linorder"
  shows "(a, b, c) \<le> (a', b', c') \<Longrightarrow> (a, b) \<le> (a', b')"
  by (auto simp: less_eq_prod_def less_prod_def)

lemma sorted_groups_contiguous:
  assumes s: "sorted (map row_key t)" and tk: "text_keys t"
    and ij: "i \<le> j" and jk: "j \<le> k" and k: "k < length t"
    and g: "same_group (t ! i) (t ! k)"
  shows "same_group (t ! i) (t ! j)"
proof -
  have le1: "row_key (t ! i) \<le> row_key (t ! j)"
    using s ij jk k by (simp add: sorted_iff_nth_mono)
  have le2: "row_key (t ! j) \<le> row_key (t ! k)"
    using s ij jk k by (simp add: sorted_iff_nth_mono)
  let ?g = "\<lambda>r. (cell_key (City r), cell_key (Commodity r))"
  have a: "?g (t ! i) \<le> ?g (t ! j)" using le1 unfolding row_key_def by (rule lex_drop_last)
  have b: "?g (t ! j) \<le> ?g (t ! k)" using le2 unfolding row_key_def by (rule lex_drop_last)
  have c: "?g (t ! k) = ?g (t ! i)" using g by (simp add: same_group_def)
  from a b c have eq: "?g (t ! j) = ?g (t ! i)" by (metis order_antisym)
  have ti: "is_text (City (t ! i))" "is_text (Commodity (t ! i))"
    and tj: "is_text (City (t ! j))" "is_text (Commodity (t ! j))"
    using tk ij jk k by (auto simp: text_keys_def list_all_length)
  from eq ti tj show ?thesis
    by (auto simp: same_group_def dest: cell_key_text_inj)
qed


lemma is_text_not_na: "is_text c \<Longrightarrow> \<not> isna c"
  by (cases c) auto

lemma same_group_refl: "same_group r r"
  by (simp add: same_group_def)

lemma same_group_trans: "same_group a b \<Longrightarrow> same_group b c \<Longrightarrow> same_group a c"
  by (simp add: same_group_def)

lemma same_group_sym: "same_group a b \<Longrightarrow> same_group b a"
  by (simp add: same_group_def)

lemma known_prices_cong: "same_group a b \<Longrightarrow> known_prices a xs = known_prices b xs"
  by (simp add: known_prices_def same_group_def)

lemma fill_agrees:
  assumes s: "sorted (map row_key t)" and tk: "text_keys t" and i: "i < length t"
    and kn: "known_prices (t ! i) t \<noteq> []"
  shows "bfill (group_ffill Map.empty t) ! i = fill_spec t i \<and> \<not> isna (fill_spec t i)"
proof -
  let ?F = "group_ffill Map.empty t"
  let ?prior = "\<lambda>j. known_prices (t ! j) (rev (take (Suc j) t))"
  have keys: "\<And>r. r \<in> set t \<Longrightarrow> \<not> isna (City r) \<and> \<not> isna (Commodity r)"
    using tk by (auto simp: text_keys_def list_all_iff is_text_not_na)
  have F: "?F ! j = (case ?prior j of p # _ \<Rightarrow> p | [] \<Rightarrow> NaN)" if "j < length t" for j
    using group_ffill_nth [OF keys that, of Map.empty] by (simp split: list.splits)
  have lenF: "length ?F = length t" by (simp add: length_group_ffill)
  have bf: "bfill ?F ! i = first_known (drop i ?F)"
    using i lenF by (simp add: bfill_nth)
  show ?thesis
  proof (cases "?prior i")
    case (Cons p ps)
    then have "p \<in> set (?prior i)" by simp
    then have np: "\<not> isna p" by (rule known_prices_not_na)
    have Fi: "?F ! i = p" using F [OF i] Cons by simp
    have "first_known (drop i ?F) = ?F ! i"
      using i lenF np Fi by (intro first_known_skip) auto
    with bf Fi np Cons show ?thesis by (simp add: fill_spec_def)
  next
    case Nil
    let ?xs = "drop (Suc i) t"
    let ?P = "\<lambda>r'. same_group (t ! i) r' \<and> \<not> isna (Price r')"
    have none_before: "\<And>r'. r' \<in> set (take (Suc i) t) \<Longrightarrow> \<not> ?P r'"
      using Nil by (auto simp: known_prices_Nil_iff)
    have "known_prices (t ! i) (take (Suc i) t) = []"
      using none_before by (auto simp: known_prices_Nil_iff)
    moreover have "known_prices (t ! i) t
        = known_prices (t ! i) (take (Suc i) t) @ known_prices (t ! i) ?xs"
      by (simp add: known_prices_append [symmetric])
    ultimately have later: "known_prices (t ! i) ?xs \<noteq> []" using kn by simp
    then have "filter ?P ?xs \<noteq> []" by (simp add: known_prices_def)
    from filter_first [OF this] obtain n where n: "n < length ?xs" "?P (?xs ! n)"
      "\<forall>k < n. \<not> ?P (?xs ! k)" "hd (filter ?P ?xs) = ?xs ! n" by blast
    define j0 where "j0 = Suc i + n"
    have j0: "j0 < length t" "i < j0" using n(1) by (auto simp: j0_def)
    have xn: "?xs ! n = t ! j0" using j0 by (simp add: j0_def)
    have g0: "same_group (t ! i) (t ! j0)" and k0: "\<not> isna (Price (t ! j0))"
      using n(2) xn by auto
    have spec: "fill_spec t i = Price (t ! j0)"
    proof -
      have "known_prices (t ! i) ?xs = map Price (filter ?P ?xs)" by (simp add: known_prices_def)
      moreover obtain y ys where "filter ?P ?xs = y # ys"
        using \<open>filter ?P ?xs \<noteq> []\<close> by (cases "filter ?P ?xs") auto
      moreover from this n(4) xn have "y = t ! j0" by simp
      ultimately show ?thesis using Nil by (simp add: fill_spec_def)
    qed
    have Fj0: "?F ! j0 = Price (t ! j0)"
    proof -
      have "rev (take (Suc j0) t) = t ! j0 # rev (take j0 t)"
        using j0(1) by (simp add: take_Suc_conv_app_nth)
      then have "?prior j0 = Price (t ! j0) # known_prices (t ! j0) (rev (take j0 t))"
        using k0 by (simp add: known_prices_def same_group_refl)
      then show ?thesis using F [OF j0(1)] by simp
    qed
    have Fna: "isna (?F ! j)" if ij: "i \<le> j" and jj: "j < j0" for j
    proof -
      have jl: "j < length t" using jj j0(1) by simp
      have gj: "same_group (t ! i) (t ! j)"
        using sorted_groups_contiguous [OF s tk ij _ j0(1) g0] jj by simp
      have "?prior j = []"
      proof (rule ccontr)
        assume "?prior j \<noteq> []"
        then obtain r' where r': "r' \<in> set (take (Suc j) t)" "same_group (t ! j) r'"
          "\<not> isna (Price r')"
          by (auto simp: known_prices_Nil_iff)
        from r'(1) obtain k' where k': "k' < Suc j" "r' = t ! k'"
          using jl by (auto simp: in_set_conv_nth)
        have P: "?P (t ! k')" using gj r'(2,3) k'(2) same_group_trans by blast
        show False
        proof (cases "k' \<le> i")
          case True
          then have "t ! k' \<in> set (take (Suc i) t)"
            using i by (auto simp: in_set_conv_nth intro!: exI [of _ k'])
          with none_before P show False by blast
        next
          case False
          define m where "m = k' - Suc i"
          have "m < n" "?xs ! m = t ! k'"
            using False k'(1) jj j0(1) by (auto simp: m_def j0_def)
          with n(3) P show False by auto
        qed
      qed
      then show ?thesis using F [OF jl] by simp
    qed
    have "first_known (drop i ?F) = ?F ! j0"
      using j0 lenF k0 Fj0 Fna by (intro first_known_skip) auto
    with bf Fj0 spec k0 show ?thesis by simp
  qed
qed


lemma set_prices_nth:
  "i < length t \<Longrightarrow> length ps = length t \<Longrightarrow> set_prices t ps ! i = (t ! i)\<lparr>Price := ps ! i\<rparr>"
  by (simp add: set_prices_def)

lemma text_keys_replace_indicators: "text_keys (replace_indicators inds df) = text_keys df"
proof (induction inds arbitrary: df)
  case Nil then show ?case by (simp add: replace_indicators_def)
next
  case (Cons a inds)
  have "text_keys (map (\<lambda>r. r\<lparr>Price := replace_value a (Price r)\<rparr>) df) = text_keys df"
    by (simp add: text_keys_def list_all_iff)
  with Cons show ?case by (simp add: replace_indicators_def)
qed

lemma text_keys_sort_values: "text_keys (sort_values df) = text_keys df"
  by (simp add: text_keys_def list_all_iff sort_values_def)

lemma filter_length_mono:
  "length xs = length ys \<Longrightarrow> (\<And>i. i < length xs \<Longrightarrow> P (xs ! i) \<Longrightarrow> Q (ys ! i)) \<Longrightarrow>
   length (filter P xs) \<le> length (filter Q ys)"
proof (induction xs ys rule: list_induct2)
  case Nil then show ?case by simp
next
  case (Cons x xs y ys)
  have "length (filter P xs) \<le> length (filter Q ys)"
    using Cons.prems by (intro Cons.IH) (metis nth_Cons_Suc Suc_less_eq length_Cons)
  moreover have "P x \<Longrightarrow> Q y" using Cons.prems [of 0] by simp
  ultimately show ?case by auto
qed

lemma handle_missing_values_agrees:
  assumes tk: "text_keys df" and i: "i < length df"
    and kn: "known_prices (sort_values (replace_indicators (missing_value_indicators cfg) df) ! i)
               (sort_values (replace_indicators (missing_value_indicators cfg) df)) \<noteq> []"
  shows "handle_missing_values cfg df ! i = handle_missing_values_spec cfg df ! i
         \<and> \<not> isna (Price (handle_missing_values cfg df ! i))"
proof -
  let ?t = "sort_values (replace_indicators (missing_value_indicators cfg) df)"
  have lt: "length ?t = length df" by (simp add: sort_values_def length_replace_indicators)
  have s: "sorted (map row_key ?t)" by (simp add: sort_values_def)
  have tk': "text_keys ?t" using tk by (simp add: text_keys_sort_values text_keys_replace_indicators)
  have il: "i < length ?t" using i lt by simp
  from fill_agrees [OF s tk' il kn]
  have a: "bfill (group_ffill Map.empty ?t) ! i = fill_spec ?t i" and b: "\<not> isna (fill_spec ?t i)"
    by simp_all
  have c: "handle_missing_values cfg df ! i = (?t ! i)\<lparr>Price := bfill (group_ffill Map.empty ?t) ! i\<rparr>"
    using il by (simp add: handle_missing_values_def Let_def set_prices_nth length_bfill length_group_ffill)
  have d: "handle_missing_values_spec cfg df ! i = (?t ! i)\<lparr>Price := fill_spec ?t i\<rparr>"
    using il by (simp add: handle_missing_values_spec_def Let_def set_prices_nth)
  from a b c d show ?thesis by simp
qed

lemma handle_missing_values_count:
  assumes tk: "text_keys df"
  shows "count_missing (handle_missing_values cfg df)
           \<le> count_missing (replace_indicators (missing_value_indicators cfg) df)"
proof -
  let ?r = "replace_indicators (missing_value_indicators cfg) df"
  let ?t = "sort_values ?r"
  have lt: "length ?t = length df" by (simp add: sort_values_def length_replace_indicators)
  have lh: "length (handle_missing_values cfg df) = length ?t"
    by (simp add: handle_missing_values_def Let_def length_set_prices length_bfill length_group_ffill)
  have step: "isna (Price (?t ! i))" if i: "i < length (handle_missing_values cfg df)"
    and na: "isna (Price (handle_missing_values cfg df ! i))" for i
  proof (rule ccontr)
    assume k: "\<not> isna (Price (?t ! i))"
    have il: "i < length ?t" using i lh by simp
    then have "?t ! i \<in> set ?t" by simp
    with k have "known_prices (?t ! i) ?t \<noteq> []"
      unfolding known_prices_Nil_iff using same_group_refl by blast
    from handle_missing_values_agrees [OF tk _ this] il lt na show False by simp
  qed
  have "length (filter (\<lambda>r. isna (Price r)) (handle_missing_values cfg df))
          \<le> length (filter (\<lambda>r. isna (Price r)) ?t)"
    using lh step by (intro filter_length_mono) auto
  also have "\<dots> = length (filter (\<lambda>r. isna (Price r)) ?r)"
    by (simp add: sort_values_def filter_sort)
  finally show ?thesis by (simp add: count_missing_def)
qed

end
